theory Spec2Isabelle
  imports Main
begin

section \<open>Errors and constants of machine\_manager.go\<close>

text \<open>
  A Go \<^verbatim>\<open>error\<close> value. \<^verbatim>\<open>RequeueAfterError\<close> carries its delay in seconds
  (\<^verbatim>\<open>&RequeueAfterError{}\<close> is delay 0); \<open>NotFound\<close> and \<open>Conflict\<close> are the API
  status errors of the client that the code tells apart with \<^verbatim>\<open>errors.IsNotFound\<close>;
  \<open>Failure\<close> is any other error, with its message.
\<close>

datatype Error =
    RequeueAfterError nat
  | NotFound
  | Conflict
  | Failure string

definition IsNotFound :: "Error option \<Rightarrow> bool" where
  "IsNotFound err = (err = Some NotFound)"

definition HostAnnotation :: string where
  "HostAnnotation = ''metal3.io/BareMetalHost''"

definition requeueAfter :: nat where
  "requeueAfter = 30"

section \<open>Data model\<close>

text \<open>Only the fields that machine\_manager.go reads or writes are kept.\<close>

record ObjectReference =
  or_Kind :: string
  or_Namespace :: string
  or_Name :: string
  or_APIVersion :: string

record SecretReference =
  sr_Name :: string
  sr_Namespace :: string

record Image =
  URL :: string
  Checksum :: string

text \<open>
  \<^verbatim>\<open>bmh.ProvisioningState\<close> is a string type; the source names seven of its values,
  every other string is \<open>StateOther\<close>.
\<close>

datatype ProvisioningState =
    StateRegistrationError
  | StateRegistering
  | StateMatchProfile
  | StateInspecting
  | StateReady
  | StateValidationError
  | StateExternallyProvisioned
  | StateOther string

record NIC =
  nic_IP :: string

record HardwareDetails =
  hw_NIC :: "NIC list"
  hw_Hostname :: string

record BareMetalHostSpec =
  hs_ConsumerRef :: "ObjectReference option"
  hs_Image :: "Image option"
  hs_Online :: bool
  hs_UserData :: "SecretReference option"

record BareMetalHostStatus =
  hst_ProvisioningState :: ProvisioningState
  hst_PoweredOn :: bool
  hst_HardwareDetails :: "HardwareDetails option"

record BareMetalHost =
  h_Name :: string
  h_Namespace :: string
  h_Labels :: "(string \<times> string) list"
  h_Spec :: BareMetalHostSpec
  h_Status :: BareMetalHostStatus

datatype MachineAddressType =
    MachineHostName
  | MachineExternalIP
  | MachineInternalIP
  | MachineExternalDNS
  | MachineInternalDNS

record MachineAddress =
  ma_Type :: MachineAddressType
  ma_Address :: string

datatype MachineStatusError = InvalidConfigurationMachineError

text \<open>
  \<^verbatim>\<open>capi.MachineStatus\<close>, the status of the cluster-api Machine, and
  \<^verbatim>\<open>capbm.BareMetalMachineStatus\<close>, the status of the BareMetalMachine, are two
  different Go struct types. Times are seconds, a \<^verbatim>\<open>nil\<close> pointer is \<open>None\<close>.
  The source reads no single field of \<^verbatim>\<open>capi.MachineStatus\<close>: it hands the whole value
  to \<^verbatim>\<open>DeepEqual\<close>.
\<close>

record MachineStatus =
  cs_LastUpdated :: "nat option"
  cs_ErrorReason :: "MachineStatusError option"
  cs_ErrorMessage :: "string option"
  cs_Addresses :: "MachineAddress list"
  cs_BootstrapReady :: bool
  cs_InfrastructureReady :: bool

record BareMetalMachineStatus =
  LastUpdated :: "nat option"
  ErrorReason :: "MachineStatusError option"
  ErrorMessage :: "string option"
  Addresses :: "MachineAddress list"
  Ready :: bool

record HostSelectorRequirement =
  Key :: string
  Operator :: string
  Values :: "string list"

text \<open>
  \<^verbatim>\<open>MatchLabels\<close> is a Go map, ranged over in an unspecified order: the list is the
  order in which one run visits its entries.
\<close>

record HostSelector =
  MatchLabels :: "(string \<times> string) list"
  MatchExpressions :: "HostSelectorRequirement list"

record BareMetalMachineSpec =
  ms_ProviderID :: "string option"
  ms_Image :: Image
  ms_UserData :: "SecretReference option"
  ms_HostSelector :: HostSelector

text \<open>Annotations are a Go map that may be \<^verbatim>\<open>nil\<close> (\<open>None\<close>).\<close>

type_synonym Annotations = "(string \<rightharpoonup> string) option"

record Machine =
  m_Name :: string
  m_Namespace :: string
  m_Kind :: string
  m_APIVersion :: string
  m_Annotations :: Annotations
  m_Status :: MachineStatus

record BareMetalMachine =
  bmm_Name :: string
  bmm_Namespace :: string
  bmm_Annotations :: Annotations
  bmm_Spec :: BareMetalMachineSpec
  bmm_Status :: BareMetalMachineStatus

text \<open>The manager holds two objects; the pointer to the BareMetalMachine may be \<^verbatim>\<open>nil\<close>.\<close>

record MachineManager =
  Machine :: Machine
  BareMetalMachine :: "BareMetalMachine option"

section \<open>The collaborators\<close>

text \<open>
  A requirement of a label selector, as \<^verbatim>\<open>labels.NewRequirement\<close> builds it.
\<close>

record Requirement =
  rq_key :: string
  rq_operator :: string
  rq_strValues :: "string list"

text \<open>
  What one invocation gets from outside: the answers of the object store to
  \<^verbatim>\<open>client.Get\<close>, \<^verbatim>\<open>client.List\<close> and \<^verbatim>\<open>client.Update\<close>, the functions of other
  packages that the source calls (\<^verbatim>\<open>BareMetalMachineSpec.IsValid\<close>, giving the message of
  its error; \<^verbatim>\<open>labels.NewRequirement\<close>; \<^verbatim>\<open>Selector.Matches\<close> for the requirements
  added to an empty selector), the part of \<^verbatim>\<open>BareMetalHost.Available\<close> that does not
  depend on the consumer reference, the number drawn by \<^verbatim>\<open>rand\<close> and the clock.
  \<open>mapUnicodeToLower\<close> is \<^verbatim>\<open>strings.Map(unicode.ToLower, s)\<close>, which \<^verbatim>\<open>strings.ToLower\<close>
  calls for a string with a byte outside ASCII; it rests on the Unicode tables.
\<close>

record Env =
  clientGet :: "string \<times> string \<Rightarrow> Error + BareMetalHost"
  clientList :: "string \<Rightarrow> Error + BareMetalHost list"
  clientUpdate :: "BareMetalHost \<Rightarrow> Error option"
  IsValid :: "BareMetalMachineSpec \<Rightarrow> string option"
  NewRequirement :: "string \<Rightarrow> string \<Rightarrow> string list \<Rightarrow> Error + Requirement"
  selectorMatches :: "Requirement list \<Rightarrow> (string \<times> string) list \<Rightarrow> bool"
  stateClaimable :: "BareMetalHost \<Rightarrow> bool"
  mapUnicodeToLower :: "string \<Rightarrow> string"
  randInt :: nat
  timeNow :: nat

text \<open>The calls made to the object store, in order; only \<open>UpdateCall\<close> writes.\<close>

datatype ClientCall =
    GetCall "string \<times> string"
  | ListCall string
  | UpdateCall BareMetalHost

fun isWrite :: "ClientCall \<Rightarrow> bool" where
  "isWrite (UpdateCall h) = True"
| "isWrite c = False"

definition storeWrites :: "ClientCall list \<Rightarrow> ClientCall list" where
  "storeWrites calls = filter isWrite calls"

section \<open>Durable keys (client-go cache)\<close>

text \<open>
  \<^verbatim>\<open>cache.SplitMetaNamespaceKey\<close> and \<^verbatim>\<open>cache.MetaNamespaceKeyFunc\<close> are functions
  of client-go that getHost and ensureAnnotation call. They are written out as that
  package defines them: the key of an object is namespace/name, and the name alone when
  the namespace is empty; a key with more than one slash does not parse.

  \<^verbatim>\<open>strings.Split(key, "/")\<close>: the pieces between the slashes, never an empty list.
\<close>

fun splitSlash :: "string \<Rightarrow> string list" where
  "splitSlash [] = [[]]"
| "splitSlash (c # cs) =
     (if c = CHR ''/'' then [] # splitSlash cs
      else (case splitSlash cs of
              [] \<Rightarrow> [[c]]
            | p # ps \<Rightarrow> (c # p) # ps))"

definition SplitMetaNamespaceKey :: "string \<Rightarrow> Error + (string \<times> string)" where
  "SplitMetaNamespaceKey key =
     (case splitSlash key of
        [name] \<Rightarrow> Inr ([], name)
      | [namespace, name] \<Rightarrow> Inr (namespace, name)
      | _ \<Rightarrow> Inl (Failure (''unexpected key format: '' @ key)))"

definition MetaNamespaceKeyFunc :: "BareMetalHost \<Rightarrow> Error + string" where
  "MetaNamespaceKeyFunc host =
     (if length (h_Namespace host) > 0
      then Inr (h_Namespace host @ ''/'' @ h_Name host)
      else Inr (h_Name host))"

section \<open>getHost and consumerRefMatches\<close>

definition getHost :: "Env \<Rightarrow> Machine \<Rightarrow> (Error + BareMetalHost option) \<times> ClientCall list" where
  "getHost env machine =
     (case m_Annotations machine of
        None \<Rightarrow> (Inr None, [])
      | Some annotations \<Rightarrow>
          (case annotations HostAnnotation of
             None \<Rightarrow> (Inr None, [])
           | Some hostKey \<Rightarrow>
               (case SplitMetaNamespaceKey hostKey of
                  Inl err \<Rightarrow> (Inl err, [])
                | Inr (hostNamespace, hostName) \<Rightarrow>
                    (case clientGet env (hostNamespace, hostName) of
                       Inl err \<Rightarrow>
                         if IsNotFound (Some err)
                         then (Inr None, [GetCall (hostNamespace, hostName)])
                         else (Inl err, [GetCall (hostNamespace, hostName)])
                     | Inr host \<Rightarrow> (Inr (Some host), [GetCall (hostNamespace, hostName)])))))"

definition consumerRefMatches :: "ObjectReference \<Rightarrow> Machine \<Rightarrow> bool" where
  "consumerRefMatches consumer machine =
     (if or_Name consumer \<noteq> m_Name machine then False
      else if or_Namespace consumer \<noteq> m_Namespace machine then False
      else if or_Kind consumer \<noteq> m_Kind machine then False
      else if or_APIVersion consumer \<noteq> m_APIVersion machine then False
      else True)"

section \<open>Delete\<close>

text \<open>
  The result of a lifecycle verb: the provider id, the error (\<open>None\<close> is \<^verbatim>\<open>nil\<close>) and
  the calls made to the store. Delete changes neither object of the manager.
\<close>

definition hostStillProvisioned :: "BareMetalHost \<Rightarrow> bool" where
  "hostStillProvisioned host =
     (hs_Image (h_Spec host) \<noteq> None \<or> hs_Online (h_Spec host) \<or> hs_UserData (h_Spec host) \<noteq> None)"

definition clearProvisioning :: "BareMetalHost \<Rightarrow> BareMetalHost" where
  "clearProvisioning host =
     host\<lparr>h_Spec := (h_Spec host)\<lparr>hs_Image := None, hs_Online := False, hs_UserData := None\<rparr>\<rparr>"

definition clearConsumerRef :: "BareMetalHost \<Rightarrow> BareMetalHost" where
  "clearConsumerRef host = host\<lparr>h_Spec := (h_Spec host)\<lparr>hs_ConsumerRef := None\<rparr>\<rparr>"

definition deleteWaiting :: "BareMetalHost \<Rightarrow> bool" where
  "deleteWaiting host =
     (case hst_ProvisioningState (h_Status host) of
        StateRegistrationError \<Rightarrow> False
      | StateRegistering \<Rightarrow> False
      | StateMatchProfile \<Rightarrow> False
      | StateInspecting \<Rightarrow> False
      | StateReady \<Rightarrow> False
      | StateValidationError \<Rightarrow> False
      | StateExternallyProvisioned \<Rightarrow> hst_PoweredOn (h_Status host)
      | StateOther s \<Rightarrow> True)"

definition Delete :: "Env \<Rightarrow> MachineManager \<Rightarrow> string \<times> Error option \<times> ClientCall list" where
  "Delete env mgr =
     (case getHost env (Machine mgr) of
        (Inl err, calls) \<Rightarrow> ([], Some err, calls)
      | (Inr None, calls) \<Rightarrow> ([], None, calls)
      | (Inr (Some host), calls) \<Rightarrow>
          (case hs_ConsumerRef (h_Spec host) of
             None \<Rightarrow> ([], None, calls)
           | Some consumer \<Rightarrow>
               if \<not> consumerRefMatches consumer (Machine mgr) then ([], None, calls)
               else if hostStillProvisioned host then
                 (let host' = clearProvisioning host;
                      err = clientUpdate env host'
                  in if err \<noteq> None \<and> \<not> IsNotFound err
                     then (h_Name host', err, calls @ [UpdateCall host'])
                     else (h_Name host, Some (RequeueAfterError 0), calls @ [UpdateCall host']))
               else if deleteWaiting host then
                 (h_Name host, Some (RequeueAfterError requeueAfter), calls)
               else
                 (let host' = clearConsumerRef host;
                      err = clientUpdate env host'
                  in if err \<noteq> None \<and> \<not> IsNotFound err
                     then (h_Name host, err, calls @ [UpdateCall host'])
                     else (h_Name host, None, calls @ [UpdateCall host']))))"

section \<open>chooseHost\<close>

text \<open>
  \<^verbatim>\<open>strings.ToLower\<close>. A string whose bytes are all below \<^verbatim>\<open>utf8.RuneSelf\<close> (0x80) is
  lower-cased byte by byte: the letters A to Z are mapped to a to z, every other byte is
  kept. Any other string is handed to \<^verbatim>\<open>strings.Map(unicode.ToLower, s)\<close>, which decodes
  it as UTF-8 and also lower-cases the capitals outside ASCII.
\<close>

definition isASCII :: "string \<Rightarrow> bool" where
  "isASCII s = list_all (\<lambda>c. (of_char c :: nat) < 128) s"

definition toLowerChar :: "char \<Rightarrow> char" where
  "toLowerChar c =
     (case map_of (zip ''ABCDEFGHIJKLMNOPQRSTUVWXYZ'' ''abcdefghijklmnopqrstuvwxyz'') c of
        None \<Rightarrow> c
      | Some l \<Rightarrow> l)"

definition ToLower :: "Env \<Rightarrow> string \<Rightarrow> string" where
  "ToLower env s = (if isASCII s then map toLowerChar s else mapUnicodeToLower env s)"

text \<open>\<^verbatim>\<open>selection.Equals\<close>\<close>

definition selectionEquals :: string where
  "selectionEquals = ''=''"

text \<open>The first loop: one requirement per entry of \<^verbatim>\<open>MatchLabels\<close>, or the first error.\<close>

fun matchLabelsReqs :: "Env \<Rightarrow> (string \<times> string) list \<Rightarrow> Requirement list \<Rightarrow> Error + Requirement list" where
  "matchLabelsReqs env [] reqs = Inr reqs"
| "matchLabelsReqs env ((labelKey, labelVal) # rest) reqs =
     (case NewRequirement env labelKey selectionEquals [labelVal] of
        Inl err \<Rightarrow> Inl err
      | Inr r \<Rightarrow> matchLabelsReqs env rest (reqs @ [r]))"

text \<open>The second loop: one requirement per expression, its operator in lower case.\<close>

fun matchExpressionsReqs :: "Env \<Rightarrow> HostSelectorRequirement list \<Rightarrow> Requirement list \<Rightarrow> Error + Requirement list" where
  "matchExpressionsReqs env [] reqs = Inr reqs"
| "matchExpressionsReqs env (req # rest) reqs =
     (let lowercaseOperator = ToLower env (Operator req)
      in case NewRequirement env (Key req) lowercaseOperator (Values req) of
           Inl err \<Rightarrow> Inl err
         | Inr r \<Rightarrow> matchExpressionsReqs env rest (reqs @ [r]))"

definition buildSelector :: "Env \<Rightarrow> HostSelector \<Rightarrow> Error + Requirement list" where
  "buildSelector env sel =
     (case matchLabelsReqs env (MatchLabels sel) [] of
        Inl err \<Rightarrow> Inl err
      | Inr reqs \<Rightarrow> matchExpressionsReqs env (MatchExpressions sel) reqs)"

text \<open>
  Modelled from the spec: \<^verbatim>\<open>BareMetalHost.Available\<close> belongs to the baremetal-operator
  API and is not in src/. Section 3 of the spec: the availability flag is derived, "not
  currently claimed and not in a provisioning-incompatible state". The second half is the
  parameter \<open>stateClaimable\<close>.
\<close>

definition Available :: "Env \<Rightarrow> BareMetalHost \<Rightarrow> bool" where
  "Available env host = (hs_ConsumerRef (h_Spec host) = None \<and> stateClaimable env host)"

text \<open>
  The loop over \<^verbatim>\<open>hosts.Items\<close>: \<open>Inl\<close> is the early return of a host that already
  refers to the machine, \<open>Inr\<close> the available hosts that matched, in list order.
\<close>

fun scanHosts :: "Env \<Rightarrow> Machine \<Rightarrow> Requirement list \<Rightarrow> BareMetalHost list \<Rightarrow> BareMetalHost list
    \<Rightarrow> BareMetalHost + BareMetalHost list" where
  "scanHosts env machine reqs [] availableHosts = Inr availableHosts"
| "scanHosts env machine reqs (host # rest) availableHosts =
     (if Available env host then
        (if selectorMatches env reqs (h_Labels host)
         then scanHosts env machine reqs rest (availableHosts @ [host])
         else scanHosts env machine reqs rest availableHosts)
      else
        (case hs_ConsumerRef (h_Spec host) of
           Some consumer \<Rightarrow>
             if consumerRefMatches consumer machine then Inl host
             else scanHosts env machine reqs rest availableHosts
         | None \<Rightarrow> scanHosts env machine reqs rest availableHosts))"

text \<open>\<^verbatim>\<open>rand.Intn(n)\<close> is the drawn number reduced into \<open>[0, n)\<close>.\<close>

definition chooseHost :: "Env \<Rightarrow> Machine \<Rightarrow> BareMetalMachine
    \<Rightarrow> (Error + BareMetalHost option) \<times> ClientCall list" where
  "chooseHost env machine bmm =
     (let calls = [ListCall (m_Namespace machine)]
      in case clientList env (m_Namespace machine) of
           Inl err \<Rightarrow> (Inl err, calls)
         | Inr hosts \<Rightarrow>
             (case buildSelector env (ms_HostSelector (bmm_Spec bmm)) of
                Inl err \<Rightarrow> (Inl err, calls)
              | Inr reqs \<Rightarrow>
                  (case scanHosts env machine reqs hosts [] of
                     Inl host \<Rightarrow> (Inr (Some host), calls)
                   | Inr availableHosts \<Rightarrow>
                       if length availableHosts = 0 then (Inr None, calls)
                       else (Inr (Some (availableHosts ! (randInt env mod length availableHosts))),
                             calls))))"

section \<open>setHostSpec and ensureAnnotation\<close>

text \<open>
  \<^verbatim>\<open>host.Spec.UserData\<close> is set to the pointer held by the BareMetalMachine, so the
  default of the namespace is written through it into the BareMetalMachine as well.
\<close>

definition defaultNamespace :: "Machine \<Rightarrow> SecretReference option \<Rightarrow> SecretReference option" where
  "defaultNamespace machine userData =
     (case userData of
        None \<Rightarrow> None
      | Some ud \<Rightarrow>
          if sr_Namespace ud = [] then Some (ud\<lparr>sr_Namespace := m_Namespace machine\<rparr>)
          else Some ud)"

definition machineRef :: "Machine \<Rightarrow> ObjectReference" where
  "machineRef machine =
     \<lparr>or_Kind = ''Machine'', or_Namespace = m_Namespace machine,
      or_Name = m_Name machine, or_APIVersion = m_APIVersion machine\<rparr>"

definition setHostSpec :: "Env \<Rightarrow> Machine \<Rightarrow> BareMetalMachine \<Rightarrow> BareMetalHost
    \<Rightarrow> BareMetalMachine \<times> BareMetalHost \<times> Error option \<times> ClientCall list" where
  "setHostSpec env machine bmm host =
     (let (bmm', spec1) =
            (if hs_Image (h_Spec host) = None then
               (let userData = defaultNamespace machine (ms_UserData (bmm_Spec bmm))
                in (bmm\<lparr>bmm_Spec := (bmm_Spec bmm)\<lparr>ms_UserData := userData\<rparr>\<rparr>,
                    (h_Spec host)\<lparr>hs_Image := Some \<lparr>URL = URL (ms_Image (bmm_Spec bmm)),
                                                   Checksum = Checksum (ms_Image (bmm_Spec bmm))\<rparr>,
                                  hs_UserData := userData\<rparr>))
             else (bmm, h_Spec host));
          host' = host\<lparr>h_Spec := spec1\<lparr>hs_ConsumerRef := Some (machineRef machine),
                                       hs_Online := True\<rparr>\<rparr>
      in (bmm', host', clientUpdate env host', [UpdateCall host']))"

text \<open>ensureAnnotation calls nothing of the client: it changes the BareMetalMachine in memory.\<close>

definition ensureAnnotation :: "BareMetalMachine \<Rightarrow> BareMetalHost \<Rightarrow> BareMetalMachine \<times> Error option" where
  "ensureAnnotation bmm host =
     (let annotations = (case bmm_Annotations bmm of None \<Rightarrow> Map.empty | Some a \<Rightarrow> a)
      in case MetaNamespaceKeyFunc host of
           Inl err \<Rightarrow> (bmm, Some err)
         | Inr hostKey \<Rightarrow>
             (case annotations HostAnnotation of
                Some existing \<Rightarrow>
                  if existing = hostKey then (bmm, None)
                  else (bmm\<lparr>bmm_Annotations := Some (annotations(HostAnnotation \<mapsto> hostKey))\<rparr>, None)
              | None \<Rightarrow>
                  (bmm\<lparr>bmm_Annotations := Some (annotations(HostAnnotation \<mapsto> hostKey))\<rparr>, None)))"

section \<open>Error fields and status\<close>

definition setError :: "string \<Rightarrow> BareMetalMachine \<Rightarrow> BareMetalMachine" where
  "setError message bmm =
     bmm\<lparr>bmm_Status := (bmm_Status bmm)\<lparr>ErrorMessage := Some message,
                                          ErrorReason := Some InvalidConfigurationMachineError\<rparr>\<rparr>"

definition clearError :: "BareMetalMachine \<Rightarrow> BareMetalMachine" where
  "clearError bmm =
     (if ErrorMessage (bmm_Status bmm) \<noteq> None \<or> ErrorReason (bmm_Status bmm) \<noteq> None
      then bmm\<lparr>bmm_Status := (bmm_Status bmm)\<lparr>ErrorMessage := None, ErrorReason := None\<rparr>\<rparr>
      else bmm)"

definition nodeAddresses :: "BareMetalHost option \<Rightarrow> MachineAddress list" where
  "nodeAddresses host =
     (case host of
        None \<Rightarrow> []
      | Some h \<Rightarrow>
          (case hst_HardwareDetails (h_Status h) of
             None \<Rightarrow> []
           | Some hw \<Rightarrow>
               map (\<lambda>nic. \<lparr>ma_Type = MachineInternalIP, ma_Address = nic_IP nic\<rparr>) (hw_NIC hw)
               @ (if hw_Hostname hw \<noteq> []
                  then [\<lparr>ma_Type = MachineHostName, ma_Address = hw_Hostname hw\<rparr>,
                        \<lparr>ma_Type = MachineInternalDNS, ma_Address = hw_Hostname hw\<rparr>]
                  else [])))"

text \<open>
  \<^verbatim>\<open>equality.Semantic.DeepEqual\<close> takes two \<^verbatim>\<open>interface{}\<close> values and answers false
  when their dynamic types differ. updateMachineStatus hands it the status of the
  Machine and the status of a copy of the BareMetalMachine.
\<close>

datatype StatusValue =
    MachineStatusValue MachineStatus
  | BareMetalMachineStatusValue BareMetalMachineStatus

fun DeepEqual :: "StatusValue \<Rightarrow> StatusValue \<Rightarrow> bool" where
  "DeepEqual (MachineStatusValue a) (MachineStatusValue b) = (a = b)"
| "DeepEqual (BareMetalMachineStatusValue a) (BareMetalMachineStatusValue b) = (a = b)"
| "DeepEqual (MachineStatusValue a) (BareMetalMachineStatusValue b) = False"
| "DeepEqual (BareMetalMachineStatusValue a) (MachineStatusValue b) = False"

definition updateMachineStatus :: "Env \<Rightarrow> Machine \<Rightarrow> BareMetalMachine \<Rightarrow> BareMetalHost option
    \<Rightarrow> BareMetalMachine \<times> Error option" where
  "updateMachineStatus env machine bmm host =
     (let addrs = nodeAddresses host;
          machineCopy = bmm\<lparr>bmm_Status := (bmm_Status bmm)\<lparr>Addresses := addrs\<rparr>\<rparr>
      in if DeepEqual (MachineStatusValue (m_Status machine))
                      (BareMetalMachineStatusValue (bmm_Status machineCopy))
         then (bmm, None)
         else (bmm\<lparr>bmm_Status := (bmm_Status bmm)\<lparr>LastUpdated := Some (timeNow env),
                                                   Addresses := addrs\<rparr>\<rparr>, None))"

section \<open>Create\<close>

text \<open>
  The part of Create after a host is known: setHostSpec, ensureAnnotation,
  updateMachineStatus. The result carries the manager as Create leaves it.
\<close>

definition bindHost :: "Env \<Rightarrow> MachineManager \<Rightarrow> BareMetalMachine \<Rightarrow> BareMetalHost \<Rightarrow> ClientCall list
    \<Rightarrow> MachineManager \<times> string \<times> Error option \<times> ClientCall list" where
  "bindHost env mgr bmm host calls =
     (case setHostSpec env (Machine mgr) bmm host of
        (bmm1, host1, err, calls1) \<Rightarrow>
          if err \<noteq> None
          then (mgr\<lparr>BareMetalMachine := Some bmm1\<rparr>, h_Name host, err, calls @ calls1)
          else
            (case ensureAnnotation bmm1 host1 of
               (bmm2, Some err2) \<Rightarrow>
                 (mgr\<lparr>BareMetalMachine := Some bmm2\<rparr>, h_Name host, Some err2, calls @ calls1)
             | (bmm2, None) \<Rightarrow>
                 (case updateMachineStatus env (Machine mgr) bmm2 (Some host1) of
                    (bmm3, err3) \<Rightarrow>
                      (mgr\<lparr>BareMetalMachine := Some bmm3\<rparr>, h_Name host, err3, calls @ calls1))))"

definition Create :: "Env \<Rightarrow> MachineManager
    \<Rightarrow> MachineManager \<times> string \<times> Error option \<times> ClientCall list" where
  "Create env mgr =
     (case BareMetalMachine mgr of
        None \<Rightarrow> (mgr, [], None, [])
      | Some bmm0 \<Rightarrow>
          (case IsValid env (bmm_Spec bmm0) of
             Some message \<Rightarrow> (mgr\<lparr>BareMetalMachine := Some (setError message bmm0)\<rparr>, [], None, [])
           | None \<Rightarrow>
               (let bmm = clearError bmm0;
                    mgr1 = mgr\<lparr>BareMetalMachine := Some bmm\<rparr>
                in case getHost env (Machine mgr) of
                     (Inl err, calls) \<Rightarrow> (mgr1, [], Some err, calls)
                   | (Inr (Some host), calls) \<Rightarrow> bindHost env mgr1 bmm host calls
                   | (Inr None, calls) \<Rightarrow>
                       (case chooseHost env (Machine mgr) bmm of
                          (Inl err, calls2) \<Rightarrow> (mgr1, [], Some err, calls @ calls2)
                        | (Inr None, calls2) \<Rightarrow>
                            (mgr1, [], Some (RequeueAfterError requeueAfter), calls @ calls2)
                        | (Inr (Some host), calls2) \<Rightarrow>
                            bindHost env mgr1 bmm host (calls @ calls2)))))"

section \<open>Vocabulary of the properties\<close>

text \<open>Reading a key of an annotation map; a \<^verbatim>\<open>nil\<close> map has no key.\<close>

definition lookupAnnotation :: "Annotations \<Rightarrow> string \<Rightarrow> string option" where
  "lookupAnnotation ann k = (case ann of None \<Rightarrow> None | Some a \<Rightarrow> a k)"

text \<open>A host whose consumer reference is set and equals the identity of the machine.\<close>

definition claimedBy :: "Machine \<Rightarrow> BareMetalHost \<Rightarrow> bool" where
  "claimedBy machine host =
     (case hs_ConsumerRef (h_Spec host) of
        None \<Rightarrow> False
      | Some consumer \<Rightarrow> consumerRefMatches consumer machine)"

text \<open>
  Letter case, said without \<^verbatim>\<open>ToLower\<close>: two bytes are the same letter when they are
  equal or are the capital and the small form of one of the letters A to Z; two strings
  differ only in letter case when they are the same letter at every position.
\<close>

definition letterPairs :: "(char \<times> char) list" where
  "letterPairs = zip ''ABCDEFGHIJKLMNOPQRSTUVWXYZ'' ''abcdefghijklmnopqrstuvwxyz''"

definition sameLetter :: "char \<Rightarrow> char \<Rightarrow> bool" where
  "sameLetter a b = (a = b \<or> (a, b) \<in> set letterPairs \<or> (b, a) \<in> set letterPairs)"

definition differOnlyInCase :: "string \<Rightarrow> string \<Rightarrow> bool" where
  "differOnlyInCase a b = list_all2 sameLetter a b"

text \<open>An ASCII string without a capital letter, as every operator of package \<^verbatim>\<open>selection\<close> is.\<close>

definition isLowerASCII :: "string \<Rightarrow> bool" where
  "isLowerASCII s =
     list_all (\<lambda>c. (of_char c :: nat) < 128 \<and> c \<notin> set ''ABCDEFGHIJKLMNOPQRSTUVWXYZ'') s"

text \<open>
  The operators that package \<^verbatim>\<open>selection\<close> defines: DoesNotExist, Equals, DoubleEquals,
  In, NotEquals, NotIn, Exists, GreaterThan and LessThan.
\<close>

definition selectionOperators :: "string list" where
  "selectionOperators = [''!'', ''='', ''=='', ''in'', ''!='', ''notin'', ''exists'', ''gt'', ''lt'']"

text \<open>The expressions \<open>es\<close> with the operator of each replaced by a spelling in another case.\<close>

definition respelled :: "HostSelectorRequirement \<Rightarrow> HostSelectorRequirement \<Rightarrow> bool" where
  "respelled a b =
     (Key a = Key b \<and> Values a = Values b \<and> Operator b \<in> set selectionOperators
      \<and> differOnlyInCase (Operator a) (Operator b))"

section \<open>Concrete collaborators and objects for the examples\<close>

text \<open>
  A stand-in for \<^verbatim>\<open>labels.NewRequirement\<close> in the closed examples only: the operators
  of package \<^verbatim>\<open>selection\<close> that take string values, with the number of values each
  demands and a key that is not empty. The general theorems hold for every
  \<open>NewRequirement\<close>.
\<close>

definition labelsNewRequirement :: "string \<Rightarrow> string \<Rightarrow> string list \<Rightarrow> Error + Requirement" where
  "labelsNewRequirement key op vals =
     (if key = [] then Inl (Failure ''name part must be non-empty'')
      else if op \<in> set [''in'', ''notin''] then
        (if length vals = 0 then Inl (Failure ''values set can not be empty'')
         else Inr \<lparr>rq_key = key, rq_operator = op, rq_strValues = vals\<rparr>)
      else if op \<in> set [''='', ''=='', ''!=''] then
        (if length vals = 1 then Inr \<lparr>rq_key = key, rq_operator = op, rq_strValues = vals\<rparr>
         else Inl (Failure ''exact-match compatibility requires one single value''))
      else if op \<in> set [''exists'', ''!''] then
        (if length vals = 0 then Inr \<lparr>rq_key = key, rq_operator = op, rq_strValues = vals\<rparr>
         else Inl (Failure ''values set must be empty for exists and does not exist''))
      else Inl (Failure ''operator is not recognized''))"

definition requirementMatches :: "(string \<times> string) list \<Rightarrow> Requirement \<Rightarrow> bool" where
  "requirementMatches ls r =
     (if rq_operator r \<in> set [''in'', ''='', ''==''] then
        (case map_of ls (rq_key r) of None \<Rightarrow> False | Some v \<Rightarrow> v \<in> set (rq_strValues r))
      else if rq_operator r \<in> set [''notin'', ''!=''] then
        (case map_of ls (rq_key r) of None \<Rightarrow> True | Some v \<Rightarrow> v \<notin> set (rq_strValues r))
      else if rq_operator r = ''exists'' then map_of ls (rq_key r) \<noteq> None
      else if rq_operator r = ''!'' then map_of ls (rq_key r) = None
      else False)"

definition labelsMatches :: "Requirement list \<Rightarrow> (string \<times> string) list \<Rightarrow> bool" where
  "labelsMatches reqs ls = list_all (requirementMatches ls) reqs"

definition specIsValid :: "BareMetalMachineSpec \<Rightarrow> string option" where
  "specIsValid spec =
     (if URL (ms_Image spec) = [] then Some ''Missing fields from ProviderSpec: Image.URL''
      else if Checksum (ms_Image spec) = [] then Some ''Missing fields from ProviderSpec: Image.Checksum''
      else None)"

text \<open>
  A stand-in for \<^verbatim>\<open>strings.Map(unicode.ToLower, s)\<close> in the closed examples only: of the
  capitals outside ASCII it knows U+0130, the bytes C4 B0, which \<^verbatim>\<open>unicode.ToLower\<close> maps
  to the letter i.
\<close>

fun unicodeLower :: "string \<Rightarrow> string" where
  "unicodeLower (a # b # cs) =
     (if a = CHR 0xC4 \<and> b = CHR 0xB0 then CHR ''i'' # unicodeLower cs
      else toLowerChar a # unicodeLower (b # cs))"
| "unicodeLower cs = map toLowerChar cs"

text \<open>A store that holds \<open>hosts\<close> and answers every update with \<open>upd\<close>.\<close>

definition storeEnv :: "BareMetalHost list \<Rightarrow> Error option \<Rightarrow> Env" where
  "storeEnv hosts upd =
     \<lparr>clientGet = (\<lambda>(ns, name).
          case find (\<lambda>h. h_Namespace h = ns \<and> h_Name h = name) hosts of
            None \<Rightarrow> Inl NotFound
          | Some h \<Rightarrow> Inr h),
      clientList = (\<lambda>ns. Inr (filter (\<lambda>h. h_Namespace h = ns) hosts)),
      clientUpdate = (\<lambda>h. upd),
      IsValid = specIsValid,
      NewRequirement = labelsNewRequirement,
      selectorMatches = labelsMatches,
      stateClaimable = (\<lambda>h. True),
      mapUnicodeToLower = unicodeLower,
      randInt = 0,
      timeNow = 100\<rparr>"

definition machineA :: Machine where
  "machineA =
     \<lparr>m_Name = ''machine-a'', m_Namespace = ''ns'', m_Kind = ''Machine'',
      m_APIVersion = ''cluster.x-k8s.io/v1alpha2'',
      m_Annotations = Some [HostAnnotation \<mapsto> ''ns/host-1''],
      m_Status = \<lparr>cs_LastUpdated = None, cs_ErrorReason = None, cs_ErrorMessage = None,
                  cs_Addresses = [], cs_BootstrapReady = False, cs_InfrastructureReady = False\<rparr>\<rparr>"

definition machineB :: Machine where
  "machineB = machineA\<lparr>m_Name := ''machine-b''\<rparr>"

text \<open>\<open>host1\<close> is claimed by \<open>machineA\<close> and provisioned; its label is not the one \<open>bmmA\<close> selects.\<close>

definition host1 :: BareMetalHost where
  "host1 =
     \<lparr>h_Name = ''host-1'', h_Namespace = ''ns'', h_Labels = [(''tier'', ''edge'')],
      h_Spec = \<lparr>hs_ConsumerRef = Some (machineRef machineA),
                hs_Image = Some \<lparr>URL = ''http://images/os.qcow2'', Checksum = ''abc''\<rparr>,
                hs_Online = True, hs_UserData = None\<rparr>,
      h_Status = \<lparr>hst_ProvisioningState = StateOther ''provisioned'', hst_PoweredOn = True,
                  hst_HardwareDetails = None\<rparr>\<rparr>"

text \<open>\<open>host1\<close> after its image and Online flag were cleared, in a given state.\<close>

definition host1Idle :: "ProvisioningState \<Rightarrow> bool \<Rightarrow> BareMetalHost" where
  "host1Idle st on =
     host1\<lparr>h_Spec := (h_Spec host1)\<lparr>hs_Image := None, hs_Online := False\<rparr>,
           h_Status := (h_Status host1)\<lparr>hst_ProvisioningState := st, hst_PoweredOn := on\<rparr>\<rparr>"

text \<open>\<open>host2\<close> is free and carries the label that \<open>bmmA\<close> selects.\<close>

definition host2 :: BareMetalHost where
  "host2 =
     \<lparr>h_Name = ''host-2'', h_Namespace = ''ns'', h_Labels = [(''tier'', ''core'')],
      h_Spec = \<lparr>hs_ConsumerRef = None, hs_Image = None, hs_Online = False, hs_UserData = None\<rparr>,
      h_Status = \<lparr>hst_ProvisioningState = StateReady, hst_PoweredOn = False,
                  hst_HardwareDetails = None\<rparr>\<rparr>"

definition bmmA :: BareMetalMachine where
  "bmmA =
     \<lparr>bmm_Name = ''machine-a'', bmm_Namespace = ''ns'', bmm_Annotations = None,
      bmm_Spec = \<lparr>ms_ProviderID = None,
                  ms_Image = \<lparr>URL = ''http://images/new.qcow2'', Checksum = ''def''\<rparr>,
                  ms_UserData = Some \<lparr>sr_Name = ''user-data'', sr_Namespace = []\<rparr>,
                  ms_HostSelector = \<lparr>MatchLabels = [(''tier'', ''core'')], MatchExpressions = []\<rparr>\<rparr>,
      bmm_Status = \<lparr>LastUpdated = Some 5, ErrorReason = None, ErrorMessage = None,
                    Addresses = [], Ready = False\<rparr>\<rparr>"

definition withExpressions :: "HostSelectorRequirement list \<Rightarrow> BareMetalMachine \<Rightarrow> BareMetalMachine" where
  "withExpressions es bmm =
     bmm\<lparr>bmm_Spec := (bmm_Spec bmm)\<lparr>ms_HostSelector :=
       (ms_HostSelector (bmm_Spec bmm))\<lparr>MatchExpressions := es\<rparr>\<rparr>\<rparr>"

definition managerA :: MachineManager where
  "managerA = \<lparr>Machine = machineA, BareMetalMachine = Some bmmA\<rparr>"

text \<open>The manager of a machine that carries no annotation yet.\<close>

definition managerNew :: MachineManager where
  "managerNew = \<lparr>Machine = machineA\<lparr>m_Annotations := None\<rparr>, BareMetalMachine = Some bmmA\<rparr>"

section \<open>Lemmas about the functions\<close>

lemma getHost_no_annotation:
  "lookupAnnotation (m_Annotations machine) HostAnnotation = None
   \<Longrightarrow> getHost env machine = (Inr None, [])"
  by (auto simp: getHost_def lookupAnnotation_def split: option.splits)

lemma getHost_annotated:
  assumes "lookupAnnotation (m_Annotations machine) HostAnnotation = Some key"
    and "SplitMetaNamespaceKey key = Inr (ns, name)"
  shows "getHost env machine =
     (case clientGet env (ns, name) of
        Inl err \<Rightarrow>
          if err = NotFound then (Inr None, [GetCall (ns, name)])
          else (Inl err, [GetCall (ns, name)])
      | Inr host \<Rightarrow> (Inr (Some host), [GetCall (ns, name)]))"
  using assms
  by (auto simp: getHost_def lookupAnnotation_def IsNotFound_def split: option.splits sum.splits)

lemma storeWrites_reads [simp]:
  "storeWrites [] = []" "storeWrites [GetCall k] = []" "storeWrites [ListCall n] = []"
  "storeWrites (calls @ [UpdateCall h]) = storeWrites calls @ [UpdateCall h]"
  by (simp_all add: storeWrites_def)

lemma getHost_reads_only: "getHost env machine = (r, calls) \<Longrightarrow> storeWrites calls = []"
  by (auto simp: getHost_def split: option.splits sum.splits prod.splits if_splits)

lemma getHost_not_NotFound: "getHost env machine \<noteq> (Inl NotFound, calls)"
  by (auto simp: getHost_def SplitMetaNamespaceKey_def IsNotFound_def
           split: option.splits sum.splits prod.splits list.splits)

lemma Delete_own_host:
  assumes "getHost env (Machine mgr) = (Inr (Some H), calls)"
    and "hs_ConsumerRef (h_Spec H) = Some c"
    and "consumerRefMatches c (Machine mgr)"
  shows "Delete env mgr =
     (if hostStillProvisioned H then
        (if clientUpdate env (clearProvisioning H) \<noteq> None
            \<and> \<not> IsNotFound (clientUpdate env (clearProvisioning H))
         then (h_Name H, clientUpdate env (clearProvisioning H),
               calls @ [UpdateCall (clearProvisioning H)])
         else (h_Name H, Some (RequeueAfterError 0), calls @ [UpdateCall (clearProvisioning H)]))
      else if deleteWaiting H then (h_Name H, Some (RequeueAfterError requeueAfter), calls)
      else
        (if clientUpdate env (clearConsumerRef H) \<noteq> None
            \<and> \<not> IsNotFound (clientUpdate env (clearConsumerRef H))
         then (h_Name H, clientUpdate env (clearConsumerRef H),
               calls @ [UpdateCall (clearConsumerRef H)])
         else (h_Name H, None, calls @ [UpdateCall (clearConsumerRef H)])))"
  using assms by (simp add: Delete_def Let_def clearProvisioning_def)

lemma split_key_host1 [simp]: "SplitMetaNamespaceKey ''ns/host-1'' = Inr (''ns'', ''host-1'')"
  by (simp add: SplitMetaNamespaceKey_def)

lemma annotation_machineA [simp]:
  "lookupAnnotation (m_Annotations machineA) HostAnnotation = Some ''ns/host-1''"
  "lookupAnnotation (m_Annotations machineB) HostAnnotation = Some ''ns/host-1''"
  by (simp_all add: lookupAnnotation_def machineA_def machineB_def)

lemma getHost_host1 [simp]:
  "h_Namespace h = ''ns'' \<Longrightarrow> h_Name h = ''host-1'' \<Longrightarrow>
   getHost (storeEnv (h # hs) upd) machineA = (Inr (Some h), [GetCall (''ns'', ''host-1'')])"
  by (simp add: getHost_annotated [where key = "''ns/host-1''" and ns = "''ns''" and name = "''host-1''"]
        storeEnv_def)

lemma host1_fields [simp]:
  "h_Name host1 = ''host-1''" "h_Namespace host1 = ''ns''"
  "hs_ConsumerRef (h_Spec host1) = Some (machineRef machineA)"
  "hs_Online (h_Spec host1)"
  by (simp_all add: host1_def)

lemma host1Idle_fields [simp]:
  "h_Name (host1Idle st on) = ''host-1''" "h_Namespace (host1Idle st on) = ''ns''"
  "hs_ConsumerRef (h_Spec (host1Idle st on)) = Some (machineRef machineA)"
  "hs_Image (h_Spec (host1Idle st on)) = None"
  "\<not> hs_Online (h_Spec (host1Idle st on))"
  "hs_UserData (h_Spec (host1Idle st on)) = None"
  "hst_ProvisioningState (h_Status (host1Idle st on)) = st"
  "hst_PoweredOn (h_Status (host1Idle st on)) = on"
  by (simp_all add: host1Idle_def host1_def)

lemma machineA_matches [simp]:
  "consumerRefMatches (machineRef machineA) machineA"
  "\<not> consumerRefMatches (machineRef machineB) machineA"
  by (simp_all add: consumerRefMatches_def machineRef_def machineA_def machineB_def)

lemma managerA_Machine [simp]: "Machine managerA = machineA"
  by (simp add: managerA_def)

lemma storeEnv_update [simp]: "clientUpdate (storeEnv hosts upd) h = upd"
  by (simp add: storeEnv_def)

section \<open>Delete\<close>

text \<open>
  C4. When the machine has no binding annotation, or the annotated host is absent from
  the store, or the bound host has an empty consumer reference, or its consumer reference
  names another machine, Delete writes nothing to the store and returns success: an empty
  provider id, no error and no retry signal.
\<close>

theorem Delete_noop_without_own_claim:
  assumes "lookupAnnotation (m_Annotations (Machine mgr)) HostAnnotation = None
     \<or> (\<exists>key ns name.
          lookupAnnotation (m_Annotations (Machine mgr)) HostAnnotation = Some key
          \<and> SplitMetaNamespaceKey key = Inr (ns, name)
          \<and> (clientGet env (ns, name) = Inl NotFound
             \<or> (\<exists>host. clientGet env (ns, name) = Inr host
                  \<and> (hs_ConsumerRef (h_Spec host) = None
                     \<or> (\<exists>c. hs_ConsumerRef (h_Spec host) = Some c
                          \<and> \<not> consumerRefMatches c (Machine mgr))))))"
  shows "\<exists>calls. Delete env mgr = ([], None, calls) \<and> storeWrites calls = []"
  using assms
proof (elim disjE exE conjE)
  assume "lookupAnnotation (m_Annotations (Machine mgr)) HostAnnotation = None"
  then show ?thesis by (simp add: Delete_def getHost_no_annotation)
next
  fix key ns name
  assume "lookupAnnotation (m_Annotations (Machine mgr)) HostAnnotation = Some key"
    "SplitMetaNamespaceKey key = Inr (ns, name)" "clientGet env (ns, name) = Inl NotFound"
  then show ?thesis by (simp add: Delete_def getHost_annotated)
next
  fix key ns name host
  assume "lookupAnnotation (m_Annotations (Machine mgr)) HostAnnotation = Some key"
    "SplitMetaNamespaceKey key = Inr (ns, name)" "clientGet env (ns, name) = Inr host"
    "hs_ConsumerRef (h_Spec host) = None"
  then show ?thesis by (simp add: Delete_def getHost_annotated)
next
  fix key ns name host c
  assume "lookupAnnotation (m_Annotations (Machine mgr)) HostAnnotation = Some key"
    "SplitMetaNamespaceKey key = Inr (ns, name)" "clientGet env (ns, name) = Inr host"
    "hs_ConsumerRef (h_Spec host) = Some c" "\<not> consumerRefMatches c (Machine mgr)"
  then show ?thesis by (simp add: Delete_def getHost_annotated)
qed

text \<open>
  The four cases of C4 at concrete inputs: a machine without annotations, an empty store,
  a host whose consumer reference is empty, and a host claimed by \<open>machineB\<close>.
\<close>

theorem Delete_noop_without_own_claim_witness:
  "(\<exists>calls. Delete (storeEnv [host1] None) (managerA\<lparr>Machine := machineA\<lparr>m_Annotations := None\<rparr>\<rparr>)
              = ([], None, calls) \<and> storeWrites calls = [])
   \<and> (\<exists>calls. Delete (storeEnv [] None) managerA = ([], None, calls) \<and> storeWrites calls = [])
   \<and> (\<exists>calls. Delete (storeEnv [clearConsumerRef host1] None) managerA = ([], None, calls)
              \<and> storeWrites calls = [])
   \<and> (\<exists>calls. Delete (storeEnv [host1\<lparr>h_Spec := (h_Spec host1)\<lparr>hs_ConsumerRef := Some (machineRef machineB)\<rparr>\<rparr>] None)
                managerA = ([], None, calls) \<and> storeWrites calls = [])"
proof (intro conjI)
  show "\<exists>calls. Delete (storeEnv [host1] None) (managerA\<lparr>Machine := machineA\<lparr>m_Annotations := None\<rparr>\<rparr>)
              = ([], None, calls) \<and> storeWrites calls = []"
    by (rule Delete_noop_without_own_claim) (simp add: lookupAnnotation_def)
next
  have "lookupAnnotation (m_Annotations (Machine managerA)) HostAnnotation = Some ''ns/host-1''
      \<and> SplitMetaNamespaceKey ''ns/host-1'' = Inr (''ns'', ''host-1'')
      \<and> clientGet (storeEnv [] None) (''ns'', ''host-1'') = Inl NotFound"
    by (simp add: storeEnv_def)
  then show "\<exists>calls. Delete (storeEnv [] None) managerA = ([], None, calls) \<and> storeWrites calls = []"
    by (intro Delete_noop_without_own_claim) blast
next
  have "lookupAnnotation (m_Annotations (Machine managerA)) HostAnnotation = Some ''ns/host-1''
      \<and> SplitMetaNamespaceKey ''ns/host-1'' = Inr (''ns'', ''host-1'')
      \<and> clientGet (storeEnv [clearConsumerRef host1] None) (''ns'', ''host-1'')
          = Inr (clearConsumerRef host1)
      \<and> hs_ConsumerRef (h_Spec (clearConsumerRef host1)) = None"
    by (simp add: storeEnv_def clearConsumerRef_def)
  then show "\<exists>calls. Delete (storeEnv [clearConsumerRef host1] None) managerA = ([], None, calls)
              \<and> storeWrites calls = []"
    by (intro Delete_noop_without_own_claim) blast
next
  let ?h = "host1\<lparr>h_Spec := (h_Spec host1)\<lparr>hs_ConsumerRef := Some (machineRef machineB)\<rparr>\<rparr>"
  have "lookupAnnotation (m_Annotations (Machine managerA)) HostAnnotation = Some ''ns/host-1''
      \<and> SplitMetaNamespaceKey ''ns/host-1'' = Inr (''ns'', ''host-1'')
      \<and> clientGet (storeEnv [?h] None) (''ns'', ''host-1'') = Inr ?h
      \<and> hs_ConsumerRef (h_Spec ?h) = Some (machineRef machineB)
      \<and> \<not> consumerRefMatches (machineRef machineB) (Machine managerA)"
    by (simp add: storeEnv_def)
  then show "\<exists>calls. Delete (storeEnv [?h] None) managerA = ([], None, calls) \<and> storeWrites calls = []"
    by (intro Delete_noop_without_own_claim) blast
qed

text \<open>
  C3 (amended). When the bound host H refers to the machine and still carries an image, an
  Online flag or user data, Delete clears the three fields and hands the host to the
  store in its only write; the consumer reference of the written host is still the
  machine. It returns the retry signal (delay 0) when the update succeeds or reports
  not-found; any other error of the update is returned as it is.
\<close>

theorem Delete_clears_payload:
  assumes "getHost env (Machine mgr) = (Inr (Some H), calls)"
    and "hs_ConsumerRef (h_Spec H) = Some c"
    and "consumerRefMatches c (Machine mgr)"
    and "hs_Image (h_Spec H) \<noteq> None \<or> hs_Online (h_Spec H) \<or> hs_UserData (h_Spec H) \<noteq> None"
    and "H' = H\<lparr>h_Spec := (h_Spec H)\<lparr>hs_Image := None, hs_Online := False, hs_UserData := None\<rparr>\<rparr>"
    and "clientUpdate env H' = upd"
  shows "Delete env mgr =
           (h_Name H,
            (if upd = None \<or> upd = Some NotFound then Some (RequeueAfterError 0) else upd),
            calls @ [UpdateCall H'])
         \<and> storeWrites (calls @ [UpdateCall H']) = [UpdateCall H']
         \<and> hs_ConsumerRef (h_Spec H') = Some c"
  using assms getHost_reads_only [of env "Machine mgr" "Inr (Some H)" calls]
  by (simp add: Delete_own_host hostStillProvisioned_def clearProvisioning_def IsNotFound_def)

text \<open>C3 at \<open>host1\<close>, which has an image and is online, with a store that accepts the update.\<close>

theorem Delete_clears_payload_witness:
  "Delete (storeEnv [host1] None) managerA =
     (''host-1'', Some (RequeueAfterError 0),
      [GetCall (''ns'', ''host-1''),
       UpdateCall (host1\<lparr>h_Spec := (h_Spec host1)\<lparr>hs_Image := None, hs_Online := False, hs_UserData := None\<rparr>\<rparr>)])
   \<and> hs_ConsumerRef (h_Spec (host1\<lparr>h_Spec := (h_Spec host1)\<lparr>hs_Image := None, hs_Online := False, hs_UserData := None\<rparr>\<rparr>))
       = Some (machineRef machineA)"
proof -
  have g: "getHost (storeEnv [host1] None) (Machine managerA)
             = (Inr (Some host1), [GetCall (''ns'', ''host-1'')])"
    by simp
  have c: "hs_ConsumerRef (h_Spec host1) = Some (machineRef machineA)" by simp
  have m: "consumerRefMatches (machineRef machineA) (Machine managerA)" by simp
  have p: "hs_Image (h_Spec host1) \<noteq> None \<or> hs_Online (h_Spec host1) \<or> hs_UserData (h_Spec host1) \<noteq> None"
    by simp
  have u: "clientUpdate (storeEnv [host1] None)
             (host1\<lparr>h_Spec := (h_Spec host1)\<lparr>hs_Image := None, hs_Online := False, hs_UserData := None\<rparr>\<rparr>) = None"
    by simp
  show ?thesis
    using Delete_clears_payload [OF g c m p refl u] by simp
qed

text \<open>
  C3 as stated fails when the store rejects the update with a conflict: the host is bound
  to the machine, refers to it and is online, and Delete returns the conflict, not a retry
  signal.
\<close>

theorem Delete_payload_conflict_counterexample:
  "getHost (storeEnv [host1] (Some Conflict)) (Machine managerA)
     = (Inr (Some host1), [GetCall (''ns'', ''host-1'')])
   \<and> hs_ConsumerRef (h_Spec host1) = Some (machineRef machineA)
   \<and> consumerRefMatches (machineRef machineA) (Machine managerA)
   \<and> hs_Online (h_Spec host1)
   \<and> fst (snd (Delete (storeEnv [host1] (Some Conflict)) managerA)) = Some Conflict"
  by (simp add: Delete_own_host [where H = host1 and c = "machineRef machineA"
        and calls = "[GetCall (''ns'', ''host-1'')]"] hostStillProvisioned_def IsNotFound_def)

text \<open>
  C5 (amended). When the bound host H refers to the machine and carries no image, no
  Online flag and no user data: in the states registration-error, registering,
  match-profile, inspecting, ready and validation-error, and in the state
  externally-provisioned once PoweredOn is false, Delete clears the consumer reference and
  hands the host to the store; it returns success when the update succeeds or reports
  not-found, and any other error of the update as it is. In the state
  externally-provisioned with PoweredOn true, and in every other state, Delete returns the
  retry signal of 30 seconds and writes nothing.
\<close>

theorem Delete_release_by_state:
  assumes "getHost env (Machine mgr) = (Inr (Some H), calls)"
    and "hs_ConsumerRef (h_Spec H) = Some c"
    and "consumerRefMatches c (Machine mgr)"
    and "hs_Image (h_Spec H) = None \<and> \<not> hs_Online (h_Spec H) \<and> hs_UserData (h_Spec H) = None"
    and "st = hst_ProvisioningState (h_Status H)"
    and "H' = H\<lparr>h_Spec := (h_Spec H)\<lparr>hs_ConsumerRef := None\<rparr>\<rparr>"
    and "clientUpdate env H' = upd"
  shows "(st \<in> {StateRegistrationError, StateRegistering, StateMatchProfile, StateInspecting,
                StateReady, StateValidationError}
            \<or> (st = StateExternallyProvisioned \<and> \<not> hst_PoweredOn (h_Status H))
          \<longrightarrow> Delete env mgr =
                (h_Name H, (if upd = Some NotFound then None else upd), calls @ [UpdateCall H'])
              \<and> storeWrites (calls @ [UpdateCall H']) = [UpdateCall H'])
       \<and> ((st = StateExternallyProvisioned \<and> hst_PoweredOn (h_Status H)) \<or> (\<exists>s. st = StateOther s)
          \<longrightarrow> Delete env mgr = (h_Name H, Some (RequeueAfterError 30), calls)
              \<and> storeWrites calls = [])"
  using assms getHost_reads_only [of env "Machine mgr" "Inr (Some H)" calls]
  by (auto simp: Delete_own_host hostStillProvisioned_def clearConsumerRef_def IsNotFound_def
        deleteWaiting_def requeueAfter_def)

text \<open>
  C5 at \<open>host1\<close> with its payload cleared: released in state ready, held back in state
  externally-provisioned while powered on and in the state "deprovisioning".
\<close>

theorem Delete_release_by_state_witness:
  "Delete (storeEnv [host1Idle StateReady False] None) managerA =
     (''host-1'', None,
      [GetCall (''ns'', ''host-1''),
       UpdateCall ((host1Idle StateReady False)
         \<lparr>h_Spec := (h_Spec (host1Idle StateReady False))\<lparr>hs_ConsumerRef := None\<rparr>\<rparr>)])
   \<and> Delete (storeEnv [host1Idle StateExternallyProvisioned True] None) managerA =
       (''host-1'', Some (RequeueAfterError 30), [GetCall (''ns'', ''host-1'')])
   \<and> Delete (storeEnv [host1Idle (StateOther ''deprovisioning'') False] None) managerA =
       (''host-1'', Some (RequeueAfterError 30), [GetCall (''ns'', ''host-1'')])"
proof -
  have m: "consumerRefMatches (machineRef machineA) (Machine managerA)" by simp
  have g: "getHost (storeEnv [host1Idle st on] None) (Machine managerA)
             = (Inr (Some (host1Idle st on)), [GetCall (''ns'', ''host-1'')])" for st on
    by simp
  have c: "hs_ConsumerRef (h_Spec (host1Idle st on)) = Some (machineRef machineA)" for st on
    by simp
  have p: "hs_Image (h_Spec (host1Idle st on)) = None \<and> \<not> hs_Online (h_Spec (host1Idle st on))
      \<and> hs_UserData (h_Spec (host1Idle st on)) = None" for st on
    by simp
  have s: "st = hst_ProvisioningState (h_Status (host1Idle st on))" for st on
    by simp
  have u: "clientUpdate (storeEnv hs None) h = None" for hs h
    by simp
  show ?thesis
    using Delete_release_by_state [OF g c m p s refl u, of StateReady False]
      Delete_release_by_state [OF g c m p s refl u, of StateExternallyProvisioned True]
      Delete_release_by_state [OF g c m p s refl u, of "StateOther ''deprovisioning''" False]
    by simp
qed

text \<open>
  C5 as stated fails when the store rejects the release with a conflict: the host is in
  state ready with nothing left to clear, and Delete returns the conflict, not success.
\<close>

theorem Delete_release_conflict_counterexample:
  "getHost (storeEnv [host1Idle StateReady False] (Some Conflict)) (Machine managerA)
     = (Inr (Some (host1Idle StateReady False)), [GetCall (''ns'', ''host-1'')])
   \<and> hs_ConsumerRef (h_Spec (host1Idle StateReady False)) = Some (machineRef machineA)
   \<and> consumerRefMatches (machineRef machineA) (Machine managerA)
   \<and> hs_Image (h_Spec (host1Idle StateReady False)) = None
   \<and> \<not> hs_Online (h_Spec (host1Idle StateReady False))
   \<and> hs_UserData (h_Spec (host1Idle StateReady False)) = None
   \<and> hst_ProvisioningState (h_Status (host1Idle StateReady False)) = StateReady
   \<and> fst (snd (Delete (storeEnv [host1Idle StateReady False] (Some Conflict)) managerA))
       = Some Conflict"
  by (simp add: Delete_own_host [where H = "host1Idle StateReady False"
        and c = "machineRef machineA" and calls = "[GetCall (''ns'', ''host-1'')]"]
        hostStillProvisioned_def deleteWaiting_def IsNotFound_def)

text \<open>
  C10. Delete never returns a not-found error. When the store answers not-found to the
  update that clears the provisioning payload, Delete returns the retry signal; when it
  answers not-found to the update that clears the consumer reference, Delete returns
  success.
\<close>

theorem Delete_update_not_found:
  "fst (snd (Delete env mgr)) \<noteq> Some NotFound
   \<and> (getHost env (Machine mgr) = (Inr (Some H), calls)
        \<and> hs_ConsumerRef (h_Spec H) = Some c \<and> consumerRefMatches c (Machine mgr)
        \<and> hostStillProvisioned H
        \<and> clientUpdate env (clearProvisioning H) = Some NotFound
      \<longrightarrow> Delete env mgr =
            (h_Name H, Some (RequeueAfterError 0), calls @ [UpdateCall (clearProvisioning H)]))
   \<and> (getHost env (Machine mgr) = (Inr (Some H), calls)
        \<and> hs_ConsumerRef (h_Spec H) = Some c \<and> consumerRefMatches c (Machine mgr)
        \<and> \<not> hostStillProvisioned H \<and> \<not> deleteWaiting H
        \<and> clientUpdate env (clearConsumerRef H) = Some NotFound
      \<longrightarrow> Delete env mgr = (h_Name H, None, calls @ [UpdateCall (clearConsumerRef H)]))"
proof (intro conjI impI)
  show "fst (snd (Delete env mgr)) \<noteq> Some NotFound"
    using getHost_not_NotFound [of env "Machine mgr"]
    by (auto simp: Delete_def Let_def IsNotFound_def requeueAfter_def
             split: prod.splits sum.splits option.splits)
qed (simp_all add: Delete_own_host IsNotFound_def)

text \<open>C10 at \<open>host1\<close>, provisioned and then idle in state ready, with a store that answers not-found.\<close>

theorem Delete_update_not_found_witness:
  "Delete (storeEnv [host1] (Some NotFound)) managerA =
     (''host-1'', Some (RequeueAfterError 0),
      [GetCall (''ns'', ''host-1''), UpdateCall (clearProvisioning host1)])
   \<and> Delete (storeEnv [host1Idle StateReady False] (Some NotFound)) managerA =
     (''host-1'', None,
      [GetCall (''ns'', ''host-1''), UpdateCall (clearConsumerRef (host1Idle StateReady False))])"
proof -
  have a: "getHost (storeEnv [host1] (Some NotFound)) (Machine managerA)
             = (Inr (Some host1), [GetCall (''ns'', ''host-1'')])
        \<and> hs_ConsumerRef (h_Spec host1) = Some (machineRef machineA)
        \<and> consumerRefMatches (machineRef machineA) (Machine managerA)
        \<and> hostStillProvisioned host1
        \<and> clientUpdate (storeEnv [host1] (Some NotFound)) (clearProvisioning host1) = Some NotFound"
    by (simp add: hostStillProvisioned_def)
  have b: "getHost (storeEnv [host1Idle StateReady False] (Some NotFound)) (Machine managerA)
             = (Inr (Some (host1Idle StateReady False)), [GetCall (''ns'', ''host-1'')])
        \<and> hs_ConsumerRef (h_Spec (host1Idle StateReady False)) = Some (machineRef machineA)
        \<and> consumerRefMatches (machineRef machineA) (Machine managerA)
        \<and> \<not> hostStillProvisioned (host1Idle StateReady False)
        \<and> \<not> deleteWaiting (host1Idle StateReady False)
        \<and> clientUpdate (storeEnv [host1Idle StateReady False] (Some NotFound))
             (clearConsumerRef (host1Idle StateReady False)) = Some NotFound"
    by (simp add: hostStillProvisioned_def deleteWaiting_def)
  show ?thesis
    using a b
      Delete_update_not_found [of "storeEnv [host1] (Some NotFound)" managerA host1
        "[GetCall (''ns'', ''host-1'')]" "machineRef machineA"]
      Delete_update_not_found [of "storeEnv [host1Idle StateReady False] (Some NotFound)" managerA
        "host1Idle StateReady False" "[GetCall (''ns'', ''host-1'')]" "machineRef machineA"]
    by simp
qed

section \<open>chooseHost\<close>

lemma scanHosts_claimed:
  "find (claimedBy machine) hosts = Some H \<Longrightarrow> scanHosts env machine reqs hosts avail = Inl H"
  by (induction hosts arbitrary: avail)
     (auto simp: claimedBy_def Available_def split: option.splits if_splits)

lemma claimedBy_Some:
  "hs_ConsumerRef (h_Spec h) = Some c \<Longrightarrow> consumerRefMatches c machine \<Longrightarrow> claimedBy machine h"
  by (simp add: claimedBy_def)

lemma scanHosts_Inl:
  "scanHosts env machine reqs hosts avail = Inl h \<Longrightarrow> h \<in> set hosts \<and> claimedBy machine h"
proof (induction hosts arbitrary: avail)
  case Nil
  then show ?case by simp
next
  case (Cons a hosts)
  from Cons.prems show ?case
    by (auto split: if_split_asm option.split_asm dest: Cons.IH intro: claimedBy_Some)
qed

lemma scanHosts_Inr:
  "scanHosts env machine reqs hosts avail = Inr av \<Longrightarrow> h \<in> set av \<Longrightarrow>
   h \<in> set avail \<or> (h \<in> set hosts \<and> Available env h \<and> selectorMatches env reqs (h_Labels h))"
proof (induction hosts arbitrary: avail)
  case Nil
  then show ?case by simp
next
  case (Cons a hosts)
  from Cons.prems show ?case
    by (auto split: if_split_asm option.split_asm dest: Cons.IH)
qed

lemma matchLabelsReqs_fails:
  "list_ex (\<lambda>(k, v). isl (NewRequirement env k selectionEquals [v])) ls
   \<Longrightarrow> isl (matchLabelsReqs env ls reqs)"
  by (induction ls arbitrary: reqs) (auto split: sum.splits)

lemma matchExpressionsReqs_fails:
  "list_ex (\<lambda>req. isl (NewRequirement env (Key req) (ToLower env (Operator req)) (Values req))) es
   \<Longrightarrow> isl (matchExpressionsReqs env es reqs)"
  by (induction es arbitrary: reqs) (auto split: sum.splits)

lemma buildSelector_fails:
  assumes "list_ex (\<lambda>(k, v). isl (NewRequirement env k selectionEquals [v])) (MatchLabels sel)
     \<or> list_ex (\<lambda>req. isl (NewRequirement env (Key req) (ToLower env (Operator req)) (Values req)))
          (MatchExpressions sel)"
  shows "isl (buildSelector env sel)"
  using assms matchLabelsReqs_fails [of env "MatchLabels sel" "[]"]
    matchExpressionsReqs_fails [of env "MatchExpressions sel"]
  by (auto simp: buildSelector_def split: sum.splits)

lemma matchLabelsReqs_Inr:
  "matchLabelsReqs env ls acc = Inr reqs \<longleftrightarrow>
   (\<exists>rs. reqs = acc @ rs
      \<and> list_all2 (\<lambda>(k, v) r. NewRequirement env k selectionEquals [v] = Inr r) ls rs)"
proof (induction ls arbitrary: acc)
  case Nil
  then show ?case by auto
next
  case (Cons a ls)
  obtain k v where a: "a = (k, v)" by (cases a)
  show ?case
  proof (cases "NewRequirement env k selectionEquals [v]")
    case (Inl e)
    then show ?thesis by (auto simp: a list_all2_Cons1)
  next
    case (Inr r)
    then show ?thesis by (auto simp: a Cons.IH list_all2_Cons1)
  qed
qed

lemma matchExpressionsReqs_Inr:
  "matchExpressionsReqs env es acc = Inr reqs \<longleftrightarrow>
   (\<exists>rs. reqs = acc @ rs
      \<and> list_all2 (\<lambda>req r. NewRequirement env (Key req) (ToLower env (Operator req)) (Values req) = Inr r)
           es rs)"
proof (induction es arbitrary: acc)
  case Nil
  then show ?case by auto
next
  case (Cons a es)
  show ?case
  proof (cases "NewRequirement env (Key a) (ToLower env (Operator a)) (Values a)")
    case (Inl e)
    then show ?thesis by (auto simp: list_all2_Cons1)
  next
    case (Inr r)
    then show ?thesis by (auto simp: Cons.IH list_all2_Cons1)
  qed
qed

lemma buildSelector_Inr:
  "buildSelector env sel = Inr reqs \<longleftrightarrow>
   (\<exists>r1 r2. reqs = r1 @ r2
      \<and> list_all2 (\<lambda>(k, v) r. NewRequirement env k selectionEquals [v] = Inr r) (MatchLabels sel) r1
      \<and> list_all2 (\<lambda>req r. NewRequirement env (Key req) (ToLower env (Operator req)) (Values req) = Inr r)
           (MatchExpressions sel) r2)"
  (is "?lhs \<longleftrightarrow> (\<exists>r1 r2. reqs = r1 @ r2 \<and> ?L r1 \<and> ?E r2)")
proof -
  have l: "matchLabelsReqs env (MatchLabels sel) [] = Inr r1 \<longleftrightarrow> ?L r1" for r1
    using matchLabelsReqs_Inr [of env "MatchLabels sel" "[]" r1] by simp
  show ?thesis
  proof
    assume ?lhs
    then obtain r1 where a: "matchLabelsReqs env (MatchLabels sel) [] = Inr r1"
      and b: "matchExpressionsReqs env (MatchExpressions sel) r1 = Inr reqs"
      by (auto simp: buildSelector_def split: sum.splits)
    from b obtain r2 where "reqs = r1 @ r2" "?E r2"
      using matchExpressionsReqs_Inr [of env "MatchExpressions sel" r1 reqs] by auto
    with a l show "\<exists>r1 r2. reqs = r1 @ r2 \<and> ?L r1 \<and> ?E r2" by blast
  next
    assume "\<exists>r1 r2. reqs = r1 @ r2 \<and> ?L r1 \<and> ?E r2"
    then obtain r1 r2 where r: "reqs = r1 @ r2" "?L r1" "?E r2" by blast
    from r(2) l have a: "matchLabelsReqs env (MatchLabels sel) [] = Inr r1" by simp
    have "matchExpressionsReqs env (MatchExpressions sel) r1 = Inr reqs"
      using matchExpressionsReqs_Inr [of env "MatchExpressions sel" r1 reqs] r(1,3) by blast
    with a show ?lhs by (simp add: buildSelector_def)
  qed
qed

lemma chooseHost_error:
  "isl (buildSelector env (ms_HostSelector (bmm_Spec bmm)))
   \<Longrightarrow> \<exists>err. chooseHost env machine bmm = (Inl err, [ListCall (m_Namespace machine)])"
  by (auto simp: chooseHost_def Let_def split: sum.splits)

lemma chooseHost_built:
  assumes "buildSelector env (ms_HostSelector (bmm_Spec bmm)) = Inr reqs"
    and "clientList env (m_Namespace machine) = Inr hosts"
  shows "\<exists>r. chooseHost env machine bmm = (Inr r, [ListCall (m_Namespace machine)])
     \<and> (\<forall>h. r = Some h \<longrightarrow> h \<in> set hosts
           \<and> (claimedBy machine h \<or> (Available env h \<and> selectorMatches env reqs (h_Labels h))))"
proof (cases "scanHosts env machine reqs hosts []")
  case (Inl h)
  then show ?thesis
    using assms scanHosts_Inl [OF Inl] by (simp add: chooseHost_def)
next
  case (Inr av)
  show ?thesis
  proof (cases "av = []")
    case True
    then show ?thesis using assms Inr by (simp add: chooseHost_def)
  next
    case False
    then have "av ! (randInt env mod length av) \<in> set av" by simp
    from scanHosts_Inr [OF Inr this] False show ?thesis
      using assms Inr by (simp add: chooseHost_def)
  qed
qed


lemma letterPairs_table:
  "list_all (\<lambda>(u, l). toLowerChar u = l \<and> (of_char u :: nat) < 128 \<and> (of_char l :: nat) < 128
      \<and> u \<in> set ''ABCDEFGHIJKLMNOPQRSTUVWXYZ'') letterPairs"
  by (simp add: letterPairs_def toLowerChar_def)

lemma letterPairs_member:
  assumes "(u, l) \<in> set letterPairs"
  shows "toLowerChar u = l" "(of_char u :: nat) < 128" "(of_char l :: nat) < 128"
    "u \<in> set ''ABCDEFGHIJKLMNOPQRSTUVWXYZ''"
proof -
  have "\<forall>x\<in>set letterPairs. case x of (u, l) \<Rightarrow>
      toLowerChar u = l \<and> (of_char u :: nat) < 128 \<and> (of_char l :: nat) < 128
      \<and> u \<in> set ''ABCDEFGHIJKLMNOPQRSTUVWXYZ''"
    using letterPairs_table by (simp only: list_all_iff)
  from bspec [OF this assms]
  show "toLowerChar u = l" "(of_char u :: nat) < 128" "(of_char l :: nat) < 128"
    "u \<in> set ''ABCDEFGHIJKLMNOPQRSTUVWXYZ''"
    by (simp_all only: prod.case)
qed

lemma toLowerChar_other:
  assumes "c \<notin> set ''ABCDEFGHIJKLMNOPQRSTUVWXYZ''"
  shows "toLowerChar c = c"
proof -
  have "map_of (zip ''ABCDEFGHIJKLMNOPQRSTUVWXYZ'' ''abcdefghijklmnopqrstuvwxyz'') c = None"
    using assms by (subst map_of_zip_is_None) simp_all
  then show ?thesis by (simp only: toLowerChar_def option.case)
qed

lemma sameLetter_ascii:
  "sameLetter a b \<Longrightarrow> (of_char b :: nat) < 128 \<Longrightarrow> (of_char a :: nat) < 128"
  unfolding sameLetter_def using letterPairs_member(2,3) by blast

lemma sameLetter_lower:
  "sameLetter a b \<Longrightarrow> b \<notin> set ''ABCDEFGHIJKLMNOPQRSTUVWXYZ'' \<Longrightarrow> toLowerChar a = b"
  unfolding sameLetter_def using letterPairs_member(1,4) toLowerChar_other by blast

lemma differOnlyInCase_lower:
  "differOnlyInCase op op' \<Longrightarrow> isLowerASCII op' \<Longrightarrow> isASCII op \<and> map toLowerChar op = op'"
  unfolding differOnlyInCase_def isLowerASCII_def isASCII_def
proof (induction op op' rule: list_all2_induct)
  case Nil
  then show ?case by simp
next
  case (Cons x xs y ys)
  then show ?case
    using sameLetter_ascii [of x y] sameLetter_lower [of x y]
    by (simp del: set_simps list.set)
qed

lemma ToLower_of_case_variant:
  "differOnlyInCase op op' \<Longrightarrow> isLowerASCII op' \<Longrightarrow> ToLower env op = op'"
  using differOnlyInCase_lower [of op op'] by (simp add: ToLower_def)

lemma selectionOperators_lower: "list_all isLowerASCII selectionOperators"
  by (simp add: selectionOperators_def isLowerASCII_def)

lemma differOnlyInCase_refl: "differOnlyInCase s s"
  by (simp add: differOnlyInCase_def sameLetter_def list_all2_same)

lemma respelled_ToLower:
  assumes "respelled a b"
  shows "ToLower env (Operator a) = ToLower env (Operator b)"
proof -
  from assms have "isLowerASCII (Operator b)"
    using selectionOperators_lower by (simp add: respelled_def list_all_iff)
  with assms show ?thesis
    using ToLower_of_case_variant [of "Operator a" "Operator b" env]
      ToLower_of_case_variant [of "Operator b" "Operator b" env] differOnlyInCase_refl
    by (simp add: respelled_def)
qed

lemma matchExpressionsReqs_respelled:
  "list_all2 respelled es' es
   \<Longrightarrow> matchExpressionsReqs env es' acc = matchExpressionsReqs env es acc"
proof (induction es' es arbitrary: acc rule: list_all2_induct)
  case Nil
  then show ?case by simp
next
  case (Cons x xs y ys)
  then show ?case
    using respelled_ToLower [of x y env] by (simp add: respelled_def split: sum.splits)
qed

lemma isASCII_examples [simp]:
  "isASCII ''bogus''" "isASCII ''In''" "isASCII ''in''" "isASCII ''NotIn''"
  "\<not> isASCII [CHR 0xC4, CHR 0xB0, CHR ''n'']"
  by (simp_all add: isASCII_def)

lemma ToLower_examples [simp]:
  "ToLower env ''bogus'' = ''bogus''" "ToLower env ''In'' = ''in''" "ToLower env ''in'' = ''in''"
  "ToLower env ''NotIn'' = ''notin''"
  by (simp_all add: ToLower_def toLowerChar_def)

lemma storeEnv_list_ns [simp]:
  "clientList (storeEnv hosts upd) ns = Inr (filter (\<lambda>h. h_Namespace h = ns) hosts)"
  by (simp add: storeEnv_def)

lemma storeEnv_labels [simp]:
  "NewRequirement (storeEnv hosts upd) = labelsNewRequirement"
  "selectorMatches (storeEnv hosts upd) = labelsMatches"
  "mapUnicodeToLower (storeEnv hosts upd) = unicodeLower"
  "stateClaimable (storeEnv hosts upd) h"
  "randInt (storeEnv hosts upd) = 0"
  by (simp_all add: storeEnv_def)

lemma bmmA_selector [simp]:
  "buildSelector (storeEnv hosts upd) (ms_HostSelector (bmm_Spec bmmA))
     = Inr [\<lparr>rq_key = ''tier'', rq_operator = ''='', rq_strValues = [''core'']\<rparr>]"
  by (simp add: buildSelector_def bmmA_def labelsNewRequirement_def selectionEquals_def)

lemma machineA_ns [simp]: "m_Namespace machineA = ''ns''"
  by (simp add: machineA_def)

lemma host2_fields [simp]:
  "h_Name host2 = ''host-2''" "h_Namespace host2 = ''ns''"
  "hs_ConsumerRef (h_Spec host2) = None" "hs_Image (h_Spec host2) = None"
  "h_Labels host2 = [(''tier'', ''core'')]"
  by (simp_all add: host2_def)

lemma claimed_hosts [simp]:
  "claimedBy machineA host1" "\<not> claimedBy machineA host2"
  "claimedBy machineA (host1\<lparr>h_Name := ''host-3''\<rparr>)"
  by (simp_all add: claimedBy_def)

text \<open>
  C1 (amended). When the list call succeeds and the selector of the machine builds
  without error, and H is the first host of the list whose consumer reference equals the
  identity of the machine, chooseHost returns H, whatever the labels of H and whatever
  the other hosts are; the list call is its only call to the store, so it writes nothing.
\<close>

theorem chooseHost_returns_claimed_host:
  assumes "clientList env (m_Namespace machine) = Inr hosts"
    and "buildSelector env (ms_HostSelector (bmm_Spec bmm)) = Inr reqs"
    and "find (claimedBy machine) hosts = Some H"
  shows "chooseHost env machine bmm = (Inr (Some H), [ListCall (m_Namespace machine)])
         \<and> storeWrites (snd (chooseHost env machine bmm)) = []"
  using assms by (simp add: chooseHost_def scanHosts_claimed)

text \<open>
  C1 at a list where the free host \<open>host2\<close>, which matches the selector, comes before
  \<open>host1\<close>, which is claimed by the machine and does not match it.
\<close>

theorem chooseHost_returns_claimed_host_witness:
  "chooseHost (storeEnv [host2, host1] None) machineA bmmA = (Inr (Some host1), [ListCall ''ns''])
   \<and> storeWrites (snd (chooseHost (storeEnv [host2, host1] None) machineA bmmA)) = []"
proof -
  have l: "clientList (storeEnv [host2, host1] None) (m_Namespace machineA) = Inr [host2, host1]"
    by simp
  have f: "find (claimedBy machineA) [host2, host1] = Some host1"
    by simp
  show ?thesis
    using chooseHost_returns_claimed_host [OF l bmmA_selector f] by simp
qed

text \<open>
  C1 as stated fails in two ways. With an operator that is not recognized in the selector,
  chooseHost returns the error although \<open>host1\<close> is claimed by the machine. With two hosts
  claimed by the machine, it returns the first and not the second.
\<close>

theorem chooseHost_claimed_host_counterexample:
  "clientList (storeEnv [host1] None) (m_Namespace machineA) = Inr [host1]
   \<and> claimedBy machineA host1
   \<and> chooseHost (storeEnv [host1] None) machineA
        (withExpressions [\<lparr>Key = ''tier'', Operator = ''bogus'', Values = []\<rparr>] bmmA)
       = (Inl (Failure ''operator is not recognized''), [ListCall ''ns''])
   \<and> clientList (storeEnv [host1, host1\<lparr>h_Name := ''host-3''\<rparr>] None) (m_Namespace machineA)
       = Inr [host1, host1\<lparr>h_Name := ''host-3''\<rparr>]
   \<and> claimedBy machineA (host1\<lparr>h_Name := ''host-3''\<rparr>)
   \<and> host1\<lparr>h_Name := ''host-3''\<rparr> \<noteq> host1
   \<and> chooseHost (storeEnv [host1, host1\<lparr>h_Name := ''host-3''\<rparr>] None) machineA bmmA
       = (Inr (Some host1), [ListCall ''ns''])"
proof (intro conjI)
  show "chooseHost (storeEnv [host1] None) machineA
        (withExpressions [\<lparr>Key = ''tier'', Operator = ''bogus'', Values = []\<rparr>] bmmA)
       = (Inl (Failure ''operator is not recognized''), [ListCall ''ns''])"
    by (simp add: chooseHost_def buildSelector_def withExpressions_def bmmA_def
          labelsNewRequirement_def selectionEquals_def)
  show "host1\<lparr>h_Name := ''host-3''\<rparr> \<noteq> host1"
    by (simp add: host1_def)
  show "chooseHost (storeEnv [host1, host1\<lparr>h_Name := ''host-3''\<rparr>] None) machineA bmmA
       = (Inr (Some host1), [ListCall ''ns''])"
  proof -
    have "scanHosts env machineA reqs [host1, host1\<lparr>h_Name := ''host-3''\<rparr>] [] = Inl host1"
      for env reqs
      by (rule scanHosts_claimed) simp
    then show ?thesis
      by (simp add: chooseHost_def)
  qed
qed simp_all

text \<open>
  C8. Let \<open>sel\<close> be the selector of the machine and \<open>ns\<close> its namespace.

  (1) When \<^verbatim>\<open>labels.NewRequirement\<close> rejects the requirement of some entry of MatchLabels,
  or of some expression with its operator in lower case, chooseHost returns an error and
  no host, having made no call but the list call.

  (2) When the selector builds and the list call succeeds, chooseHost returns no error;
  a host it returns is one of the list, and is claimed by the machine or is available and
  matches the requirements built.

  (3) The selector builds exactly when every requirement is accepted, and the requirements
  built are then those of the entries of MatchLabels followed by those of the expressions,
  none skipped, each expression with its operator in lower case.

  (4) Operators are compared without regard to letter case: a spelling that differs only
  in letter case from an ASCII string without capitals, as every operator of package
  \<^verbatim>\<open>selection\<close> is, is lower-cased to that string.

  (5) So a machine whose expressions spell operators of package \<^verbatim>\<open>selection\<close> in another
  letter case gets from chooseHost what the machine with the operators themselves gets.
\<close>

theorem chooseHost_malformed_selector:
  assumes "sel = ms_HostSelector (bmm_Spec bmm)" and "ns = m_Namespace machine"
  shows
   "(list_ex (\<lambda>(k, v). isl (NewRequirement env k selectionEquals [v])) (MatchLabels sel)
      \<or> list_ex (\<lambda>req. isl (NewRequirement env (Key req) (ToLower env (Operator req)) (Values req)))
           (MatchExpressions sel)
     \<longrightarrow> (\<exists>err. chooseHost env machine bmm = (Inl err, [ListCall ns])))
    \<and> (buildSelector env sel = Inr reqs \<and> clientList env ns = Inr hosts
     \<longrightarrow> (\<exists>r. chooseHost env machine bmm = (Inr r, [ListCall ns])
            \<and> (\<forall>h. r = Some h \<longrightarrow> h \<in> set hosts
                  \<and> (claimedBy machine h
                      \<or> (Available env h \<and> selectorMatches env reqs (h_Labels h))))))
    \<and> (buildSelector env sel = Inr reqs \<longleftrightarrow>
         (\<exists>r1 r2. reqs = r1 @ r2
            \<and> list_all2 (\<lambda>(k, v) r. NewRequirement env k selectionEquals [v] = Inr r)
                 (MatchLabels sel) r1
            \<and> list_all2 (\<lambda>req r. NewRequirement env (Key req) (ToLower env (Operator req))
                                  (Values req) = Inr r)
                 (MatchExpressions sel) r2))
    \<and> (differOnlyInCase op op' \<and> isLowerASCII op' \<longrightarrow> ToLower env op = op')
    \<and> (ms_HostSelector (bmm_Spec bmm') = sel\<lparr>MatchExpressions := es'\<rparr>
        \<and> list_all2 respelled es' (MatchExpressions sel)
     \<longrightarrow> chooseHost env machine bmm' = chooseHost env machine bmm)"
proof (intro conjI impI)
  assume "list_ex (\<lambda>(k, v). isl (NewRequirement env k selectionEquals [v])) (MatchLabels sel)
      \<or> list_ex (\<lambda>req. isl (NewRequirement env (Key req) (ToLower env (Operator req)) (Values req)))
           (MatchExpressions sel)"
  then have "isl (buildSelector env sel)" by (rule buildSelector_fails)
  then show "\<exists>err. chooseHost env machine bmm = (Inl err, [ListCall ns])"
    unfolding assms by (rule chooseHost_error)
next
  assume "buildSelector env sel = Inr reqs \<and> clientList env ns = Inr hosts"
  then show "\<exists>r. chooseHost env machine bmm = (Inr r, [ListCall ns])
            \<and> (\<forall>h. r = Some h \<longrightarrow> h \<in> set hosts
                  \<and> (claimedBy machine h
                      \<or> (Available env h \<and> selectorMatches env reqs (h_Labels h))))"
    unfolding assms using chooseHost_built by blast
next
  show "buildSelector env sel = Inr reqs \<longleftrightarrow>
         (\<exists>r1 r2. reqs = r1 @ r2
            \<and> list_all2 (\<lambda>(k, v) r. NewRequirement env k selectionEquals [v] = Inr r)
                 (MatchLabels sel) r1
            \<and> list_all2 (\<lambda>req r. NewRequirement env (Key req) (ToLower env (Operator req))
                                  (Values req) = Inr r)
                 (MatchExpressions sel) r2)"
    by (rule buildSelector_Inr)
next
  assume "differOnlyInCase op op' \<and> isLowerASCII op'"
  then show "ToLower env op = op'"
    using ToLower_of_case_variant by blast
next
  assume a: "ms_HostSelector (bmm_Spec bmm') = sel\<lparr>MatchExpressions := es'\<rparr>
        \<and> list_all2 respelled es' (MatchExpressions sel)"
  then have "matchExpressionsReqs env es' acc = matchExpressionsReqs env (MatchExpressions sel) acc"
    for acc
    using matchExpressionsReqs_respelled by blast
  with a have h: "buildSelector env (ms_HostSelector (bmm_Spec bmm'))
      = buildSelector env (ms_HostSelector (bmm_Spec bmm))"
    by (simp add: buildSelector_def assms(1) cong: sum.case_cong)
  show "chooseHost env machine bmm' = chooseHost env machine bmm"
    unfolding chooseHost_def h by (rule refl)
qed

text \<open>
  C8 at a store that holds the free \<open>host2\<close>, labelled tier=core, which the selector of
  \<open>bmmA\<close> matches. With the expression "tier bogus" chooseHost gives an error. With
  "tier In core" the selector builds and chooseHost returns \<open>host2\<close>, as it does with
  "tier in core". "NotIn" is lower-cased to "notin".
\<close>

theorem chooseHost_malformed_selector_witness:
  "(\<exists>err. chooseHost (storeEnv [host2] None) machineA
             (withExpressions [\<lparr>Key = ''tier'', Operator = ''bogus'', Values = []\<rparr>] bmmA)
           = (Inl err, [ListCall ''ns'']))
   \<and> chooseHost (storeEnv [host2] None) machineA
        (withExpressions [\<lparr>Key = ''tier'', Operator = ''In'', Values = [''core'']\<rparr>] bmmA)
     = (Inr (Some host2), [ListCall ''ns''])
   \<and> chooseHost (storeEnv [host2] None) machineA
        (withExpressions [\<lparr>Key = ''tier'', Operator = ''In'', Values = [''core'']\<rparr>] bmmA)
     = chooseHost (storeEnv [host2] None) machineA
        (withExpressions [\<lparr>Key = ''tier'', Operator = ''in'', Values = [''core'']\<rparr>] bmmA)
   \<and> ToLower (storeEnv [host2] None) ''NotIn'' = ''notin''"
proof -
  let ?env = "storeEnv [host2] None"
  let ?bad = "withExpressions [\<lparr>Key = ''tier'', Operator = ''bogus'', Values = []\<rparr>] bmmA"
  let ?lower = "withExpressions [\<lparr>Key = ''tier'', Operator = ''in'', Values = [''core'']\<rparr>] bmmA"
  let ?upper = "withExpressions [\<lparr>Key = ''tier'', Operator = ''In'', Values = [''core'']\<rparr>] bmmA"
  let ?reqs = "[\<lparr>rq_key = ''tier'', rq_operator = ''='', rq_strValues = [''core'']\<rparr>,
                \<lparr>rq_key = ''tier'', rq_operator = ''in'', rq_strValues = [''core'']\<rparr>]"
  have a: "list_ex (\<lambda>(k, v). isl (NewRequirement ?env k selectionEquals [v]))
             (MatchLabels (ms_HostSelector (bmm_Spec ?bad)))
           \<or> list_ex (\<lambda>req. isl (NewRequirement ?env (Key req) (ToLower ?env (Operator req)) (Values req)))
             (MatchExpressions (ms_HostSelector (bmm_Spec ?bad)))"
    by (simp add: withExpressions_def labelsNewRequirement_def)
  have b: "buildSelector ?env (ms_HostSelector (bmm_Spec ?upper)) = Inr ?reqs
           \<and> clientList ?env (m_Namespace machineA) = Inr [host2]"
    by (simp add: buildSelector_def withExpressions_def bmmA_def labelsNewRequirement_def
          selectionEquals_def)
  have c: "differOnlyInCase ''NotIn'' ''notin'' \<and> isLowerASCII ''notin''"
    by (simp add: differOnlyInCase_def sameLetter_def letterPairs_def isLowerASCII_def)
  have d: "ms_HostSelector (bmm_Spec ?upper)
             = (ms_HostSelector (bmm_Spec ?lower))
                 \<lparr>MatchExpressions := [\<lparr>Key = ''tier'', Operator = ''In'', Values = [''core'']\<rparr>]\<rparr>
           \<and> list_all2 respelled [\<lparr>Key = ''tier'', Operator = ''In'', Values = [''core'']\<rparr>]
                 (MatchExpressions (ms_HostSelector (bmm_Spec ?lower)))"
    by (simp add: withExpressions_def respelled_def selectionOperators_def differOnlyInCase_def
          sameLetter_def letterPairs_def)
  have avail: "Available ?env h \<longleftrightarrow> hs_ConsumerRef (h_Spec h) = None" for h
    by (simp add: Available_def)
  have 1: "\<exists>err. chooseHost ?env machineA ?bad = (Inl err, [ListCall ''ns''])"
    using chooseHost_malformed_selector [OF refl refl, of ?env ?bad machineA, THEN conjunct1,
        rule_format, OF a]
    by simp
  obtain r where r: "chooseHost ?env machineA ?upper = (Inr r, [ListCall ''ns''])"
      and m: "\<forall>h. r = Some h \<longrightarrow> h \<in> set [host2]"
    using chooseHost_malformed_selector [OF refl refl, of ?env ?upper machineA ?reqs "[host2]",
        THEN conjunct2, THEN conjunct1, rule_format, OF b]
    by auto
  have "chooseHost ?env machineA ?upper \<noteq> (Inr None, [ListCall ''ns''])"
    using b by (simp add: chooseHost_def avail labelsMatches_def requirementMatches_def)
  with r m have 2: "chooseHost ?env machineA ?upper = (Inr (Some host2), [ListCall ''ns''])"
    by (cases r) auto
  have 3: "chooseHost ?env machineA ?upper = chooseHost ?env machineA ?lower"
    using chooseHost_malformed_selector [OF refl refl, of ?env ?lower machineA,
        THEN conjunct2, THEN conjunct2, THEN conjunct2, THEN conjunct2, rule_format, OF d] .
  have 4: "ToLower ?env ''NotIn'' = ''notin''"
    using chooseHost_malformed_selector [OF refl refl, of ?env bmmA machineA,
        THEN conjunct2, THEN conjunct2, THEN conjunct2, THEN conjunct1, rule_format, OF c] .
  from 1 2 3 4 show ?thesis by blast
qed

text \<open>
  The capital I with dot above, U+0130, is lower-cased to i by \<^verbatim>\<open>unicode.ToLower\<close>: with
  the stand-in for the Unicode path, the operator of the bytes C4 B0 6E is the operator
  "in".
\<close>

lemma matchExpressionsReqs_dotted_capital_I:
  "matchExpressionsReqs (storeEnv hosts upd)
     [\<lparr>Key = ''tier'', Operator = [CHR 0xC4, CHR 0xB0, CHR ''n''], Values = [''core'']\<rparr>] []
   = Inr [\<lparr>rq_key = ''tier'', rq_operator = ''in'', rq_strValues = [''core'']\<rparr>]"
  by (simp add: ToLower_def toLowerChar_def labelsNewRequirement_def)

section \<open>setHostSpec, ensureAnnotation, Create and updateMachineStatus\<close>

lemma clearError_eq:
  "clearError bmm = bmm\<lparr>bmm_Status := (bmm_Status bmm)\<lparr>ErrorMessage := None, ErrorReason := None\<rparr>\<rparr>"
  by (cases bmm; cases "bmm_Status bmm") (auto simp: clearError_def)

lemma updateMachineStatus_always:
  "updateMachineStatus env machine bmm host =
     (bmm\<lparr>bmm_Status := (bmm_Status bmm)\<lparr>LastUpdated := Some (timeNow env),
                                          Addresses := nodeAddresses host\<rparr>\<rparr>, None)"
  by (simp add: updateMachineStatus_def)

lemma bindHost_errors:
  assumes "bindHost env mgr bmm host calls = (mgr', pid, err, calls')"
  shows "\<exists>bmm'. BareMetalMachine mgr' = Some bmm'
     \<and> ErrorMessage (bmm_Status bmm') = ErrorMessage (bmm_Status bmm)
     \<and> ErrorReason (bmm_Status bmm') = ErrorReason (bmm_Status bmm)"
  using assms
  by (auto simp: bindHost_def setHostSpec_def ensureAnnotation_def updateMachineStatus_always
        MetaNamespaceKeyFunc_def Let_def split: prod.splits option.splits if_splits)

lemma bindHost_errors_fst:
  "\<exists>bmm'. BareMetalMachine (fst (bindHost env mgr bmm host calls)) = Some bmm'
     \<and> ErrorMessage (bmm_Status bmm') = ErrorMessage (bmm_Status bmm)
     \<and> ErrorReason (bmm_Status bmm') = ErrorReason (bmm_Status bmm)"
  using bindHost_errors [of env mgr bmm host calls]
  by (cases "bindHost env mgr bmm host calls") auto

lemma Create_valid_errors:
  assumes "BareMetalMachine mgr = Some bmm" and "IsValid env (bmm_Spec bmm) = None"
  shows "\<exists>bmm'. BareMetalMachine (fst (Create env mgr)) = Some bmm'
     \<and> ErrorMessage (bmm_Status bmm') = None \<and> ErrorReason (bmm_Status bmm') = None"
proof -
  have c: "ErrorMessage (bmm_Status (clearError bmm)) = None"
    "ErrorReason (bmm_Status (clearError bmm)) = None"
    by (simp_all add: clearError_eq)
  show ?thesis
    using assms c
    using bindHost_errors_fst [of env "mgr\<lparr>BareMetalMachine := Some (clearError bmm)\<rparr>" "clearError bmm"]
    by (auto simp: Create_def Let_def split: prod.splits sum.splits option.splits)
qed



lemma Create_keeps_Machine: "Machine (fst (Create env mgr)) = Machine mgr"
  by (auto simp: Create_def bindHost_def Let_def
           split: option.splits prod.splits sum.splits)

lemma clearError_bmmA [simp]: "clearError bmmA = bmmA"
  by (simp add: clearError_def bmmA_def)

lemma chooseHost_host2:
  "chooseHost (storeEnv [host2] None) (machineA\<lparr>m_Annotations := None\<rparr>) bmmA
     = (Inr (Some host2), [ListCall ''ns''])"
  by (simp add: chooseHost_def Available_def labelsMatches_def requirementMatches_def
        machineA_def)

lemma ensureAnnotation_host2:
  "ensureAnnotation (bmm\<lparr>bmm_Annotations := None\<rparr>) (host2\<lparr>h_Spec := sp\<rparr>)
     = (bmm\<lparr>bmm_Annotations := Some [HostAnnotation \<mapsto> ''ns/host-2'']\<rparr>, None)"
  by (simp add: ensureAnnotation_def MetaNamespaceKeyFunc_def host2_def)

text \<open>
  C7, at an input where the claim fails. The machine of \<open>managerNew\<close> carries no
  annotation and the store holds the free \<open>host2\<close> of namespace "ns". ensureAnnotation
  writes the key "ns/host-2", which decodes to the namespace and the name of the host, but
  writes it into the annotations of the BareMetalMachine. Create binds \<open>host2\<close> and leaves
  the Machine as it was: the annotation that getHost decodes is still absent, and getHost
  on the manager that Create leaves finds no host.
\<close>

theorem Create_annotation_not_read_back:
  "fst (ensureAnnotation bmmA host2) = bmmA\<lparr>bmm_Annotations := Some [HostAnnotation \<mapsto> ''ns/host-2'']\<rparr>
   \<and> SplitMetaNamespaceKey ''ns/host-2'' = Inr (''ns'', ''host-2'')
   \<and> fst (snd (Create (storeEnv [host2] None) managerNew)) = ''host-2''
   \<and> fst (snd (snd (Create (storeEnv [host2] None) managerNew))) = None
   \<and> map_option (\<lambda>b. lookupAnnotation (bmm_Annotations b) HostAnnotation)
        (BareMetalMachine (fst (Create (storeEnv [host2] None) managerNew)))
      = Some (Some ''ns/host-2'')
   \<and> lookupAnnotation (m_Annotations (Machine (fst (Create (storeEnv [host2] None) managerNew))))
        HostAnnotation = None
   \<and> getHost (storeEnv [host2] None) (Machine (fst (Create (storeEnv [host2] None) managerNew)))
      = (Inr None, [])"
proof -
  let ?env = "storeEnv [host2] None"
  have e: "fst (ensureAnnotation bmmA host2)
      = bmmA\<lparr>bmm_Annotations := Some [HostAnnotation \<mapsto> ''ns/host-2'']\<rparr>"
    using ensureAnnotation_host2 [of bmmA "h_Spec host2"] by (simp add: bmmA_def)
  have k: "SplitMetaNamespaceKey ''ns/host-2'' = Inr (''ns'', ''host-2'')"
    by (simp add: SplitMetaNamespaceKey_def)
  have n: "lookupAnnotation (m_Annotations (Machine managerNew)) HostAnnotation = None"
    by (simp add: managerNew_def lookupAnnotation_def)
  have v: "IsValid ?env (bmm_Spec bmmA) = None"
    by (simp add: storeEnv_def specIsValid_def bmmA_def)
  have a: "bmm_Annotations bmmA = None"
    by (simp add: bmmA_def)
  have c: "Create ?env managerNew
      = bindHost ?env managerNew bmmA host2 [ListCall ''ns'']"
    using v getHost_no_annotation [OF n, of ?env] chooseHost_host2
    by (simp add: Create_def managerNew_def)
  have b: "bindHost ?env managerNew bmmA host2 [ListCall ''ns'']
      = (managerNew\<lparr>BareMetalMachine := Some (fst (updateMachineStatus ?env (Machine managerNew)
            (fst (ensureAnnotation (fst (setHostSpec ?env (Machine managerNew) bmmA host2))
               (fst (snd (setHostSpec ?env (Machine managerNew) bmmA host2)))))
            (Some (fst (snd (setHostSpec ?env (Machine managerNew) bmmA host2))))))\<rparr>,
         ''host-2'', None,
         [ListCall ''ns'', UpdateCall (fst (snd (setHostSpec ?env (Machine managerNew) bmmA host2)))])"
    using a
    by (simp add: bindHost_def setHostSpec_def ensureAnnotation_def MetaNamespaceKeyFunc_def
          updateMachineStatus_always Let_def)
  have w: "lookupAnnotation (bmm_Annotations (fst (updateMachineStatus ?env (Machine managerNew)
            (fst (ensureAnnotation (fst (setHostSpec ?env (Machine managerNew) bmmA host2))
               (fst (snd (setHostSpec ?env (Machine managerNew) bmmA host2)))))
            (Some (fst (snd (setHostSpec ?env (Machine managerNew) bmmA host2))))))) HostAnnotation
      = Some ''ns/host-2''"
    using a
    by (simp add: setHostSpec_def ensureAnnotation_def MetaNamespaceKeyFunc_def
          updateMachineStatus_always Let_def lookupAnnotation_def)
  have m: "Machine (fst (Create ?env managerNew)) = Machine managerNew"
    by (rule Create_keeps_Machine)
  show ?thesis
    using e k n w getHost_no_annotation [OF n, of ?env]
    by (simp add: c b m)
qed

text \<open>
  C9. With a BareMetalMachine whose specification \<^verbatim>\<open>IsValid\<close> rejects, Create stores the
  message and the reason InvalidConfiguration in its status and returns an empty provider
  id with no error, no retry signal and no call to the store. With a valid specification
  the error fields are cleared first: Create behaves as on the same manager with both
  fields empty, and both are empty in the manager it leaves.
\<close>

theorem Create_validation:
  assumes "BareMetalMachine mgr = Some bmm"
  shows "(IsValid env (bmm_Spec bmm) = Some msg \<longrightarrow>
            Create env mgr =
              (mgr\<lparr>BareMetalMachine := Some (bmm\<lparr>bmm_Status := (bmm_Status bmm)
                     \<lparr>ErrorMessage := Some msg,
                      ErrorReason := Some InvalidConfigurationMachineError\<rparr>\<rparr>)\<rparr>, [], None, []))
     \<and> (IsValid env (bmm_Spec bmm) = None \<longrightarrow>
            Create env mgr =
              Create env (mgr\<lparr>BareMetalMachine := Some (bmm\<lparr>bmm_Status := (bmm_Status bmm)
                     \<lparr>ErrorMessage := None, ErrorReason := None\<rparr>\<rparr>)\<rparr>)
            \<and> (\<exists>bmm'. BareMetalMachine (fst (Create env mgr)) = Some bmm'
                  \<and> ErrorMessage (bmm_Status bmm') = None \<and> ErrorReason (bmm_Status bmm') = None))"
proof (intro conjI impI)
  assume "IsValid env (bmm_Spec bmm) = Some msg"
  then show "Create env mgr =
              (mgr\<lparr>BareMetalMachine := Some (bmm\<lparr>bmm_Status := (bmm_Status bmm)
                     \<lparr>ErrorMessage := Some msg,
                      ErrorReason := Some InvalidConfigurationMachineError\<rparr>\<rparr>)\<rparr>, [], None, [])"
    using assms by (simp add: Create_def setError_def)
next
  assume v: "IsValid env (bmm_Spec bmm) = None"
  show "Create env mgr =
              Create env (mgr\<lparr>BareMetalMachine := Some (bmm\<lparr>bmm_Status := (bmm_Status bmm)
                     \<lparr>ErrorMessage := None, ErrorReason := None\<rparr>\<rparr>)\<rparr>)"
    using assms v
    by (simp add: Create_def clearError_eq Let_def
             cong: prod.case_cong sum.case_cong option.case_cong)
  show "\<exists>bmm'. BareMetalMachine (fst (Create env mgr)) = Some bmm'
                  \<and> ErrorMessage (bmm_Status bmm') = None \<and> ErrorReason (bmm_Status bmm') = None"
    using assms v by (rule Create_valid_errors)
qed


text \<open>
  C9 at a BareMetalMachine without an image URL, and at \<open>bmmA\<close> carrying an error of an
  earlier pass.
\<close>

theorem Create_validation_witness:
  "Create (storeEnv [host2] None)
      \<lparr>Machine = machineA,
       BareMetalMachine = Some (bmmA\<lparr>bmm_Spec := (bmm_Spec bmmA)\<lparr>ms_Image := \<lparr>URL = [], Checksum = ''def''\<rparr>\<rparr>\<rparr>)\<rparr>
     = (\<lparr>Machine = machineA,
         BareMetalMachine = Some (bmmA\<lparr>bmm_Spec := (bmm_Spec bmmA)\<lparr>ms_Image := \<lparr>URL = [], Checksum = ''def''\<rparr>\<rparr>,
            bmm_Status := (bmm_Status bmmA)
              \<lparr>ErrorMessage := Some ''Missing fields from ProviderSpec: Image.URL'',
               ErrorReason := Some InvalidConfigurationMachineError\<rparr>\<rparr>)\<rparr>,
        [], None, [])
   \<and> (\<exists>bmm'. BareMetalMachine (fst (Create (storeEnv [host2] None)
          \<lparr>Machine = machineA,
           BareMetalMachine = Some (bmmA\<lparr>bmm_Status := (bmm_Status bmmA)
              \<lparr>ErrorMessage := Some ''old'', ErrorReason := Some InvalidConfigurationMachineError\<rparr>\<rparr>)\<rparr>))
        = Some bmm'
        \<and> ErrorMessage (bmm_Status bmm') = None \<and> ErrorReason (bmm_Status bmm') = None)"
proof -
  let ?env = "storeEnv [host2] None"
  let ?bad = "bmmA\<lparr>bmm_Spec := (bmm_Spec bmmA)\<lparr>ms_Image := \<lparr>URL = [], Checksum = ''def''\<rparr>\<rparr>\<rparr>"
  let ?old = "bmmA\<lparr>bmm_Status := (bmm_Status bmmA)
              \<lparr>ErrorMessage := Some ''old'', ErrorReason := Some InvalidConfigurationMachineError\<rparr>\<rparr>"
  have a: "BareMetalMachine \<lparr>Machine = machineA, BareMetalMachine = Some b\<rparr> = Some b" for b
    by simp
  have i: "IsValid ?env (bmm_Spec ?bad) = Some ''Missing fields from ProviderSpec: Image.URL''"
    by (simp add: storeEnv_def specIsValid_def)
  have v: "IsValid ?env (bmm_Spec ?old) = None"
    by (simp add: storeEnv_def specIsValid_def bmmA_def)
  have A: "Create ?env \<lparr>Machine = machineA, BareMetalMachine = Some ?bad\<rparr>
     = (\<lparr>Machine = machineA,
         BareMetalMachine = Some (bmmA\<lparr>bmm_Spec := (bmm_Spec bmmA)\<lparr>ms_Image := \<lparr>URL = [], Checksum = ''def''\<rparr>\<rparr>,
            bmm_Status := (bmm_Status bmmA)
              \<lparr>ErrorMessage := Some ''Missing fields from ProviderSpec: Image.URL'',
               ErrorReason := Some InvalidConfigurationMachineError\<rparr>\<rparr>)\<rparr>,
        [], None, [])"
    using Create_validation [OF a, of ?env ?bad "''Missing fields from ProviderSpec: Image.URL''",
        THEN conjunct1, rule_format, OF i]
    by simp
  have B: "\<exists>bmm'. BareMetalMachine (fst (Create ?env \<lparr>Machine = machineA, BareMetalMachine = Some ?old\<rparr>))
        = Some bmm'
        \<and> ErrorMessage (bmm_Status bmm') = None \<and> ErrorReason (bmm_Status bmm') = None"
    using Create_validation [OF a, of ?env ?old, THEN conjunct2, rule_format, OF v, THEN conjunct2] .
  show ?thesis
    using A B by (rule conjI)
qed

text \<open>
  C2, at an input where the claim fails. The addresses derived from \<open>host2\<close>, which has no
  hardware details, are the empty list that \<open>bmmA\<close> already stores, and updateMachineStatus
  still replaces the time stamp 5 by the present time 100: it compares the status of the
  Machine with the status of the copy of the BareMetalMachine, two values of different
  types, which are never equal.
\<close>

theorem updateMachineStatus_stamps_unchanged_status:
  "nodeAddresses (Some host2) = Addresses (bmm_Status bmmA)
   \<and> LastUpdated (bmm_Status bmmA) = Some 5
   \<and> updateMachineStatus (storeEnv [host2] None) machineA bmmA (Some host2)
       = (bmmA\<lparr>bmm_Status := (bmm_Status bmmA)\<lparr>LastUpdated := Some 100\<rparr>\<rparr>, None)
   \<and> fst (updateMachineStatus (storeEnv [host2] None) machineA bmmA (Some host2)) \<noteq> bmmA"
  by (simp add: updateMachineStatus_always nodeAddresses_def host2_def bmmA_def storeEnv_def)

end
